theory Spec2Isabelle
  imports Complex_Main "HOL-Library.Sublist"
begin

section \<open>Strings and bytes\<close>

text \<open>
  A Go \<^verbatim>\<open>string\<close> and a Go \<^verbatim>\<open>[]byte\<close> are both sequences of bytes; both are
  modelled as \<^typ>\<open>string\<close>, a list of 8-bit characters. A character outside ASCII is
  the sequence of its UTF-8 bytes, as in Go.
\<close>

type_synonym bytes = string

text \<open>
  \<^verbatim>\<open>unicode.IsSpace\<close> holds for the code points U+0009..U+000D, U+0020, U+0085, U+00A0,
  U+1680, U+2000..U+200A, U+2028, U+2029, U+202F, U+205F and U+3000. \<open>spaceRunes\<close> lists
  their UTF-8 encodings.
\<close>

definition spaceRunes :: "string list" where
  "spaceRunes =
    [[CHR 0x09], [CHR 0x0A], [CHR 0x0B], [CHR 0x0C], [CHR 0x0D], [CHR 0x20],
     [CHR 0xC2, CHR 0x85], [CHR 0xC2, CHR 0xA0],
     [CHR 0xE1, CHR 0x9A, CHR 0x80],
     [CHR 0xE2, CHR 0x80, CHR 0x80], [CHR 0xE2, CHR 0x80, CHR 0x81],
     [CHR 0xE2, CHR 0x80, CHR 0x82], [CHR 0xE2, CHR 0x80, CHR 0x83],
     [CHR 0xE2, CHR 0x80, CHR 0x84], [CHR 0xE2, CHR 0x80, CHR 0x85],
     [CHR 0xE2, CHR 0x80, CHR 0x86], [CHR 0xE2, CHR 0x80, CHR 0x87],
     [CHR 0xE2, CHR 0x80, CHR 0x88], [CHR 0xE2, CHR 0x80, CHR 0x89],
     [CHR 0xE2, CHR 0x80, CHR 0x8A],
     [CHR 0xE2, CHR 0x80, CHR 0xA8], [CHR 0xE2, CHR 0x80, CHR 0xA9],
     [CHR 0xE2, CHR 0x80, CHR 0xAF],
     [CHR 0xE2, CHR 0x81, CHR 0x9F],
     [CHR 0xE3, CHR 0x80, CHR 0x80]]"

text \<open>
  \<open>trimLeftRunes ps s\<close> removes from the front of \<open>s\<close>, one after the other, every
  leading occurrence of one of the byte sequences \<open>ps\<close>. With \<open>spaceRunes\<close> this is
  \<^verbatim>\<open>strings.TrimLeftFunc(s, unicode.IsSpace)\<close>: the decoder reads a white-space rune at
  the front exactly when the bytes there are its encoding, and a byte that starts no
  valid encoding decodes to U+FFFD, which is not white space.
\<close>

function trimLeftRunes :: "string list \<Rightarrow> string \<Rightarrow> string" where
  "trimLeftRunes ps s =
     (case find (\<lambda>p. p \<noteq> [] \<and> prefix p s) ps of
        None \<Rightarrow> s
      | Some p \<Rightarrow> trimLeftRunes ps (drop (length p) s))"
  by pat_completeness auto
termination
  by (relation "measure (\<lambda>(ps, s). length s)") (auto simp: find_Some_iff prefix_def)

declare trimLeftRunes.simps [simp del]

text \<open>
  \<^verbatim>\<open>strings.TrimSpace\<close>: leading white space is removed, then trailing white space.
  Reading backwards, the decoder finds a white-space rune at the end exactly when the
  string ends with its encoding, so the trailing trim is the leading trim of the
  reversed string by the reversed encodings.
\<close>

definition TrimSpace :: "string \<Rightarrow> string" where
  "TrimSpace s =
     rev (trimLeftRunes (map rev spaceRunes) (rev (trimLeftRunes spaceRunes s)))"

text \<open>\<^verbatim>\<open>strings.HasPrefix\<close>, \<^verbatim>\<open>strings.HasSuffix\<close>, \<^verbatim>\<open>strings.Contains\<close>.\<close>

definition HasPrefix :: "string \<Rightarrow> string \<Rightarrow> bool" where
  "HasPrefix s p = prefix p s"

definition HasSuffix :: "string \<Rightarrow> string \<Rightarrow> bool" where
  "HasSuffix s p = suffix p s"

definition Contains :: "string \<Rightarrow> string \<Rightarrow> bool" where
  "Contains s sub = sublist sub s"

text \<open>
  \<^verbatim>\<open>strings.ToLower\<close>: a string of ASCII bytes only has its letters A..Z mapped to
  a..z; any other string goes through the Unicode case tables, which are the parameter
  \<open>unicodeLower\<close>.
\<close>

definition asciiLower :: "char \<Rightarrow> char" where
  "asciiLower c =
     (if (65::nat) \<le> of_char c \<and> of_char c \<le> (90::nat)
      then char_of (of_char c + (32::nat)) else c)"

definition ToLower :: "(string \<Rightarrow> string) \<Rightarrow> string \<Rightarrow> string" where
  "ToLower unicodeLower s =
     (if list_all (\<lambda>c. of_char c < (128::nat)) s then map asciiLower s
      else unicodeLower s)"

text \<open>\<^verbatim>\<open>strconv.Itoa\<close>: the decimal digits of an integer, with a minus sign if negative.\<close>

fun digits :: "nat \<Rightarrow> string" where
  "digits n =
     (if n < 10 then [char_of (48 + n)]
      else digits (n div 10) @ [char_of (48 + n mod 10)])"

declare digits.simps [simp del]

definition Itoa :: "int \<Rightarrow> string" where
  "Itoa i = (if i < 0 then CHR ''-'' # digits (nat (- i)) else digits (nat i))"

text \<open>
  \<^verbatim>\<open>base64.StdEncoding.EncodeToString\<close>: three bytes give four characters of the
  standard alphabet; a tail of one or two bytes is padded with \<open>=\<close>.
\<close>

definition encodeStd :: string where
  "encodeStd =
     ''ABCDEFGHIJKLMNOPQRSTUVWXYZabcdefghijklmnopqrstuvwxyz0123456789+/''"

definition enc64 :: "nat \<Rightarrow> char" where
  "enc64 v = encodeStd ! (v mod 64)"

fun encodeBase64 :: "bytes \<Rightarrow> string" where
  "encodeBase64 [] = []"
| "encodeBase64 [a] =
     (let v = of_char a * (65536::nat)
      in [enc64 (v div 262144), enc64 (v div 4096), CHR ''='', CHR ''=''])"
| "encodeBase64 [a, b] =
     (let v = of_char a * (65536::nat) + of_char b * 256
      in [enc64 (v div 262144), enc64 (v div 4096), enc64 (v div 64), CHR ''=''])"
| "encodeBase64 (a # b # c # rest) =
     (let v = of_char a * (65536::nat) + of_char b * 256 + of_char c
      in [enc64 (v div 262144), enc64 (v div 4096), enc64 (v div 64), enc64 v])
     @ encodeBase64 rest"

section \<open>Errors (errors.go)\<close>

text \<open>\<^verbatim>\<open>APIError\<close> captures a non-2xx response.\<close>

record APIError =
  ae_StatusCode :: int
  ae_Code :: string
  ae_Message :: string
  ae_RawBody :: bytes

text \<open>
  The values of Go's \<^verbatim>\<open>error\<close> interface that the package handles: its four sentinel
  errors, a pointer to an \<^verbatim>\<open>APIError\<close>, an error of another package (context, os,
  net/http), and an error wrapped by \<^verbatim>\<open>fmt.Errorf("...: %w", err)\<close>.
\<close>

datatype error =
    ErrDeviceIDMissing
  | ErrImagePayloadMissing
  | ErrTitleMissing
  | ErrMessageMissing
  | ErrAPI APIError
  | Foreign string
  | Wrapf string error

fun IsRateLimitError :: "error \<Rightarrow> bool" where
  "IsRateLimitError (ErrAPI ae) = (ae_StatusCode ae = 429)"
| "IsRateLimitError _ = False"

fun IsAuthError :: "error \<Rightarrow> bool" where
  "IsAuthError (ErrAPI ae) = (ae_StatusCode ae = 401 \<or> ae_StatusCode ae = 403)"
| "IsAuthError _ = False"

text \<open>
  What \<^verbatim>\<open>json.Unmarshal\<close> stores in an \<^verbatim>\<open>interface{}\<close>: nil, a bool, a float64, a
  string, a slice or a map. A float64 decoded from JSON is finite; it is modelled by
  the real number it denotes. A Go map from strings is a partial function; \<open>None\<close> for
  the map itself is the nil map.
\<close>

datatype jvalue =
    JNull
  | JBool bool
  | JNumber real
  | JString string
  | JArray "jvalue list"
  | JObject "(string \<times> jvalue) list"

type_synonym jobject = "string \<rightharpoonup> jvalue"

text \<open>
  The Go libraries and the platform that the package runs on, as parameters:
  \<^item> \<open>unmarshalMap body\<close> is \<^verbatim>\<open>json.Unmarshal(body, &obj)\<close> for a nil map \<open>obj\<close>: \<open>Inl\<close>
    the decoding error, \<open>Inr\<close> the map stored (nil for the JSON text \<open>null\<close>);
  \<^item> \<open>unmarshalEnvelope raw (code, message, result)\<close> is \<^verbatim>\<open>json.Unmarshal(raw, out)\<close>
    on the three fields of an \<^verbatim>\<open>APIResponse\<close> that carry a JSON key: the fields as the
    decoder leaves them, and its error if any (on a type mismatch the decoder keeps
    what it has stored so far);
  \<^item> \<open>intOutOfRange\<close> is the result of converting to \<^verbatim>\<open>int\<close> a float64 whose integer part
    does not fit, which Go leaves to the implementation;
  \<^item> \<open>unicodeLower\<close> is the lower-casing of a string that has non-ASCII bytes;
  \<^item> \<open>osReadFile\<close> is \<^verbatim>\<open>os.ReadFile\<close>;
  \<^item> \<open>urlError\<close> is the error, if any, of \<^verbatim>\<open>http.NewRequestWithContext\<close> on a URL.
\<close>

record platform =
  unmarshalMap :: "bytes \<Rightarrow> error + jobject option"
  unmarshalEnvelope :: "bytes \<Rightarrow> int \<times> string \<times> bytes \<Rightarrow> (int \<times> string \<times> bytes) \<times> error option"
  intOutOfRange :: int
  unicodeLower :: "string \<Rightarrow> string"
  osReadFile :: "string \<Rightarrow> error + bytes"
  urlError :: "string \<Rightarrow> error option"

text \<open>
  The conversion \<^verbatim>\<open>int(t)\<close> of a float64 drops the fraction (towards zero); \<^verbatim>\<open>int\<close> has
  64 bits.
\<close>

definition float64ToInt :: "int \<Rightarrow> real \<Rightarrow> int" where
  "float64ToInt oor t =
     (let z = (if t < 0 then \<lceil>t\<rceil> else \<lfloor>t\<rfloor>)
      in if - (2 ^ 63) \<le> z \<and> z < 2 ^ 63 then z else oor)"

definition isJSONObject :: "string \<Rightarrow> bool" where
  "isJSONObject s = (length s > 0 \<and> HasPrefix s ''{'' \<and> HasSuffix s ''}'')"

definition tryParseJSON :: "platform \<Rightarrow> bytes \<Rightarrow> jobject option" where
  "tryParseJSON pf body =
     (case unmarshalMap pf body of
        Inr obj \<Rightarrow> obj
      | Inl err \<Rightarrow> None)"

definition formatCode :: "platform \<Rightarrow> jvalue \<Rightarrow> string" where
  "formatCode pf v =
     (case v of
        JString t \<Rightarrow> TrimSpace t
      | JNumber t \<Rightarrow> Itoa (float64ToInt (intOutOfRange pf) t)
      | _ \<Rightarrow> [])"

text \<open>The type assertion \<^verbatim>\<open>v, ok := x.(string)\<close> on the result of a map lookup.\<close>

definition assertString :: "jvalue option \<Rightarrow> string \<times> bool" where
  "assertString x = (case x of Some (JString v) \<Rightarrow> (v, True) | _ \<Rightarrow> ([], False))"

definition extractErrorFields :: "platform \<Rightarrow> APIError \<Rightarrow> jobject \<Rightarrow> string \<Rightarrow> APIError" where
  "extractErrorFields pf ae obj fallback =
     (let (v, ok) = assertString (obj ''message'');
          (v', ok') = assertString (obj ''error'');
          ae1 = (if ok \<and> v \<noteq> [] then ae\<lparr>ae_Message := v\<rparr>
                 else if ok' \<and> v' \<noteq> [] then ae\<lparr>ae_Message := v'\<rparr>
                 else ae\<lparr>ae_Message := fallback\<rparr>)
      in case obj ''code'' of
           Some c \<Rightarrow> ae1\<lparr>ae_Code := formatCode pf c\<rparr>
         | None \<Rightarrow> ae1)"

definition buildAPIError :: "platform \<Rightarrow> int \<Rightarrow> bytes \<Rightarrow> error" where
  "buildAPIError pf status body =
     (let trimmed = TrimSpace body;
          ae = \<lparr>ae_StatusCode = status, ae_Code = [], ae_Message = trimmed,
                ae_RawBody = body\<rparr>
      in if isJSONObject trimmed then
           (case tryParseJSON pf body of
              Some obj \<Rightarrow> ErrAPI (extractErrorFields pf ae obj trimmed)
            | None \<Rightarrow> ErrAPI ae)
         else ErrAPI ae)"

section \<open>The fixed-interval limiter (ratelimit.go)\<close>

text \<open>
  An instant (\<^verbatim>\<open>time.Time\<close>) is the number of nanoseconds since the zero instant, so
  \<^verbatim>\<open>IsZero\<close> is equality with 0, \<^verbatim>\<open>Before\<close> is \<open><\<close> and \<^verbatim>\<open>Add\<close> is \<open>+\<close> (a
  \<^verbatim>\<open>time.Time\<close> counts its seconds in 64 bits). A \<^verbatim>\<open>time.Duration\<close> is a number of
  nanoseconds in 64 bits, and \<^verbatim>\<open>Sub\<close> saturates: a difference above the largest duration
  (about 292 years) is the largest duration, one below the smallest is the smallest.
\<close>

type_synonym instant = int
type_synonym duration = int

definition Second :: duration where
  "Second = 1000000000"

definition maxDuration :: duration where
  "maxDuration = 2 ^ 63 - 1"

definition minDuration :: duration where
  "minDuration = - (2 ^ 63)"

definition IsZero :: "instant \<Rightarrow> bool" where
  "IsZero t = (t = 0)"

definition Sub :: "instant \<Rightarrow> instant \<Rightarrow> duration" where
  "Sub t u =
     (if t - u > maxDuration then maxDuration
      else if t - u < minDuration then minDuration
      else t - u)"

text \<open>
  \<^verbatim>\<open>time.NewTimer(d)\<close> for a positive \<open>d\<close>: the timer fires \<open>d\<close> after its creation. The
  runtime keeps its clock in 64 bits and clamps the firing time to the largest value
  of that clock; \<open>timerEnd\<close> is the instant at which the clock has that value, and no
  clock reading is after it.
\<close>

definition timerFires :: "instant \<Rightarrow> instant \<Rightarrow> duration \<Rightarrow> instant" where
  "timerFires timerEnd now d = (if timerEnd < now + d then timerEnd else now + d)"

text \<open>
  A \<^verbatim>\<open>context.Context\<close>: the instant at which its \<^verbatim>\<open>Done\<close> channel is closed (\<open>None\<close> if
  never), and the error that \<^verbatim>\<open>Err\<close> returns from then on. \<^verbatim>\<open>context.Background()\<close> is
  never done, so its error is never read.
\<close>

record Context =
  ctx_doneAt :: "instant option"
  ctx_err :: error

definition Background :: Context where
  "Background = \<lparr>ctx_doneAt = None, ctx_err = Foreign ''context canceled''\<rparr>"

record fixedIntervalLimiter =
  lim_next :: instant
  lim_minInterval :: duration

definition NewFixedIntervalLimiter :: "duration \<Rightarrow> fixedIntervalLimiter" where
  "NewFixedIntervalLimiter interval =
     \<lparr>lim_next = 0,
      lim_minInterval = (if interval \<le> 0 then Second else interval)\<rparr>"

text \<open>
  One call of \<^verbatim>\<open>Wait\<close>. The section under the mutex is one atomic step: it reads the
  clock (\<open>now\<close>), computes \<open>wait\<close> and \<open>start\<close> and stores the new \<open>next\<close>. Then the
  caller returns at once if \<open>wait \<le> 0\<close>, and otherwise blocks in the \<^verbatim>\<open>select\<close> until
  the context is done or the timer of duration \<open>wait\<close> fires. When both channels are
  ready at the same instant the runtime picks either; \<open>pickDone\<close> is its choice. The
  result is the error returned (\<open>None\<close> for nil), the instant of the return, and the
  limiter afterwards.
\<close>

definition Wait ::
  "instant \<Rightarrow> fixedIntervalLimiter \<Rightarrow> Context \<Rightarrow> instant \<Rightarrow> bool \<Rightarrow>
     error option \<times> instant \<times> fixedIntervalLimiter" where
  "Wait timerEnd l ctx now pickDone =
     (let (wait, start) =
            (if \<not> IsZero (lim_next l) \<and> now < lim_next l
             then (Sub (lim_next l) now, lim_next l) else (0, now));
          l' = l\<lparr>lim_next := start + lim_minInterval l\<rparr>
      in if wait \<le> 0 then (None, now, l')
         else (let fires = timerFires timerEnd now wait
               in case ctx_doneAt ctx of
                    None \<Rightarrow> (None, fires, l')
                  | Some d \<Rightarrow>
                      if d < fires \<or> (d = fires \<and> pickDone)
                      then (Some (ctx_err ctx), max now d, l')
                      else (None, fires, l')))"

text \<open>
  A sequence of calls on one limiter, in the order in which they take the mutex; each
  call comes with its context, its clock reading and the runtime's choice.
\<close>

fun Waits ::
  "instant \<Rightarrow> fixedIntervalLimiter \<Rightarrow> (Context \<times> instant \<times> bool) list \<Rightarrow>
     (error option \<times> instant) list \<times> fixedIntervalLimiter" where
  "Waits timerEnd l [] = ([], l)"
| "Waits timerEnd l ((ctx, now, pickDone) # calls) =
     (case Wait timerEnd l ctx now pickDone of
        (err, ret, l') \<Rightarrow>
          (case Waits timerEnd l' calls of (rs, l'') \<Rightarrow> ((err, ret) # rs, l'')))"

section \<open>Requests and their JSON form (the request types, image.go)\<close>

record TextRequest =
  txt_RefreshNow :: "bool option"
  txt_DeviceID :: string
  txt_Title :: string
  txt_Message :: string
  txt_Signature :: string
  txt_Icon :: string
  txt_Link :: string

type_synonym BorderColor = int

definition BorderWhite :: BorderColor where
  "BorderWhite = 0"

definition BorderBlack :: BorderColor where
  "BorderBlack = 1"

record ImageRequest =
  img_RefreshNow :: "bool option"
  img_DeviceID :: string
  img_Image :: string
  img_ImageBytes :: bytes
  img_ImagePath :: string
  img_Link :: string
  img_Border :: BorderColor
  img_DitherType :: string
  img_DitherKernel :: string

text \<open>
  The body that \<^verbatim>\<open>json.Marshal\<close> writes for a request is a JSON object; it is modelled
  by the list of its members, in the order of the struct's fields. A field tagged
  \<open>omitempty\<close> is left out when it is a nil pointer, the empty string or the integer 0;
  a field tagged \<open>-\<close> is never written. Marshalling these two structs cannot fail.
\<close>

datatype wire = WBool bool | WInt int | WString string

datatype payload = TextPayload TextRequest | ImagePayload ImageRequest

definition omitemptyBoolPtr :: "string \<Rightarrow> bool option \<Rightarrow> (string \<times> wire) list" where
  "omitemptyBoolPtr key p = (case p of None \<Rightarrow> [] | Some b \<Rightarrow> [(key, WBool b)])"

definition omitemptyString :: "string \<Rightarrow> string \<Rightarrow> (string \<times> wire) list" where
  "omitemptyString key v = (if v = [] then [] else [(key, WString v)])"

definition omitemptyInt :: "string \<Rightarrow> int \<Rightarrow> (string \<times> wire) list" where
  "omitemptyInt key v = (if v = 0 then [] else [(key, WInt v)])"

fun jsonMarshal :: "payload \<Rightarrow> (string \<times> wire) list" where
  "jsonMarshal (TextPayload r) =
     omitemptyBoolPtr ''refreshNow'' (txt_RefreshNow r)
     @ [(''deviceId'', WString (txt_DeviceID r))]
     @ omitemptyString ''title'' (txt_Title r)
     @ omitemptyString ''message'' (txt_Message r)
     @ omitemptyString ''signature'' (txt_Signature r)
     @ omitemptyString ''icon'' (txt_Icon r)
     @ omitemptyString ''link'' (txt_Link r)"
| "jsonMarshal (ImagePayload r) =
     omitemptyBoolPtr ''refreshNow'' (img_RefreshNow r)
     @ [(''deviceId'', WString (img_DeviceID r))]
     @ [(''image'', WString (img_Image r))]
     @ omitemptyString ''link'' (img_Link r)
     @ omitemptyInt ''border'' (img_Border r)
     @ omitemptyString ''ditherType'' (img_DitherType r)
     @ omitemptyString ''ditherKernel'' (img_DitherKernel r)"

definition TextRequest_validate :: "TextRequest \<Rightarrow> error option" where
  "TextRequest_validate r =
     (if TrimSpace (txt_DeviceID r) = [] then Some ErrDeviceIDMissing else None)"

definition ImageRequest_validate :: "ImageRequest \<Rightarrow> error option" where
  "ImageRequest_validate r =
     (if TrimSpace (img_DeviceID r) = [] then Some ErrDeviceIDMissing
      else if TrimSpace (img_Image r) = [] then Some ErrImagePayloadMissing
      else None)"

section \<open>The client and the dispatch\<close>

text \<open>
  An HTTP request as the client builds it, and a response as it reads it:
  \<open>resp_ContentType\<close> is \<^verbatim>\<open>resp.Header.Get("Content-Type")\<close> (empty when the header is
  absent); the body is a stream that yields \<open>resp_Body\<close> and then ends, or fails with
  \<open>resp_BodyErr\<close>.
\<close>

record request =
  req_ctx :: Context
  req_Method :: string
  req_URL :: string
  req_Header :: "(string \<times> string) list"
  req_Body :: "(string \<times> wire) list"

record response =
  resp_StatusCode :: int
  resp_ContentType :: string
  resp_Body :: bytes
  resp_BodyErr :: "error option"

record APIResponse =
  ar_Code :: int
  ar_Message :: string
  ar_Result :: bytes
  ar_StatusCode :: int
  ar_RawBody :: bytes

text \<open>
  The client. Its limiter is a value of the interface \<^verbatim>\<open>RateLimiter\<close> (absent when
  nil): what its \<^verbatim>\<open>Wait\<close> returns for a context. Its transport is what
  \<^verbatim>\<open>c.http.Do\<close> returns for a request.
\<close>

record Client =
  cl_baseURL :: string
  cl_apiKey :: string
  cl_http :: "request \<Rightarrow> error + response"
  cl_limiter :: "(Context \<Rightarrow> error option) option"
  cl_userAgent :: string
  cl_defaultDevice :: string

definition textEndpoint :: string where
  "textEndpoint = ''/api/open/text''"

definition imageEndpoint :: string where
  "imageEndpoint = ''/api/open/image''"

definition maxResponseBodySize :: nat where
  "maxResponseBodySize = 4 * 2 ^ 20"

definition SetDefaultDeviceID :: "Client \<Rightarrow> string \<Rightarrow> Client" where
  "SetDefaultDeviceID c deviceID = c\<lparr>cl_defaultDevice := TrimSpace deviceID\<rparr>"

definition resolveDeviceID :: "Client \<Rightarrow> string \<Rightarrow> error + string" where
  "resolveDeviceID c explicit0 =
     (let explicit = TrimSpace explicit0
      in if explicit \<noteq> [] then Inr explicit
         else (let id = TrimSpace (cl_defaultDevice c)
               in if id = [] then Inl ErrDeviceIDMissing else Inr id))"

text \<open>
  What a dispatch does to the world outside is recorded as a trace: a wait on the
  limiter, a request handed to the transport.
\<close>

datatype event = LimiterWait Context | HTTPDo request

text \<open>\<^verbatim>\<open>io.ReadAll(io.LimitReader(resp.Body, maxResponseBodySize))\<close>.\<close>

definition readAllLimited :: "response \<Rightarrow> error + bytes" where
  "readAllLimited resp =
     (if maxResponseBodySize \<le> length (resp_Body resp)
      then Inr (take maxResponseBodySize (resp_Body resp))
      else (case resp_BodyErr resp of
              Some err \<Rightarrow> Inl err
            | None \<Rightarrow> Inr (resp_Body resp)))"

text \<open>\<^verbatim>\<open>json.Unmarshal(raw, out)\<close> for an \<^verbatim>\<open>APIResponse\<close>.\<close>

definition unmarshalAPIResponse ::
  "platform \<Rightarrow> bytes \<Rightarrow> APIResponse \<Rightarrow> APIResponse \<times> error option" where
  "unmarshalAPIResponse pf raw out =
     (case unmarshalEnvelope pf raw (ar_Code out, ar_Message out, ar_Result out) of
        ((c, m, r), err) \<Rightarrow> (out\<lparr>ar_Code := c, ar_Message := m, ar_Result := r\<rparr>, err))"

definition newRequest :: "Client \<Rightarrow> Context \<Rightarrow> string \<Rightarrow> payload \<Rightarrow> request" where
  "newRequest c ctx endpoint payload =
     \<lparr>req_ctx = ctx, req_Method = ''POST'', req_URL = cl_baseURL c @ endpoint,
      req_Header =
        [(''Authorization'', ''Bearer '' @ cl_apiKey c),
         (''Content-Type'', ''application/json'')]
        @ (let ua = TrimSpace (cl_userAgent c)
           in if ua \<noteq> [] then [(''User-Agent'', ua)] else []),
      req_Body = jsonMarshal payload\<rparr>"

definition doJSON ::
  "platform \<Rightarrow> Client \<Rightarrow> Context option \<Rightarrow> string \<Rightarrow> payload \<Rightarrow>
     event list \<times> (error + APIResponse)" where
  "doJSON pf c ctx0 endpoint payload =
     (let ctx = (case ctx0 of None \<Rightarrow> Background | Some x \<Rightarrow> x);
          (tr, lerr) = (case cl_limiter c of
                          None \<Rightarrow> ([], None)
                        | Some l \<Rightarrow> ([LimiterWait ctx], l ctx))
      in case lerr of
           Some err \<Rightarrow> (tr, Inl err)
         | None \<Rightarrow>
            (case urlError pf (cl_baseURL c @ endpoint) of
               Some err \<Rightarrow> (tr, Inl (Wrapf ''quote0: build request'' err))
             | None \<Rightarrow>
                (let req = newRequest c ctx endpoint payload
                 in (tr @ [HTTPDo req],
                     case cl_http c req of
                       Inl err \<Rightarrow> Inl (Wrapf ''quote0: execute request'' err)
                     | Inr resp \<Rightarrow>
                        (case readAllLimited resp of
                           Inl err \<Rightarrow> Inl (Wrapf ''quote0: read response'' err)
                         | Inr raw \<Rightarrow>
                            if resp_StatusCode resp < 200 \<or> resp_StatusCode resp \<ge> 300
                            then Inl (buildAPIError pf (resp_StatusCode resp) raw)
                            else
                              (let out = \<lparr>ar_Code = 0, ar_Message = [], ar_Result = [],
                                          ar_StatusCode = resp_StatusCode resp,
                                          ar_RawBody = raw\<rparr>
                               in if length raw = 0 then Inr out
                                  else
                                    (let ct = ToLower (unicodeLower pf) (resp_ContentType resp)
                                     in if Contains ct ''application/json''
                                        then (case unmarshalAPIResponse pf raw out of
                                                (out', None) \<Rightarrow> Inr out'
                                              | (out', Some err) \<Rightarrow>
                                                  Inr (out'\<lparr>ar_Message := TrimSpace raw\<rparr>))
                                        else Inr (out\<lparr>ar_Message := TrimSpace raw\<rparr>))))))))"

definition SendText ::
  "platform \<Rightarrow> Client \<Rightarrow> Context option \<Rightarrow> TextRequest \<Rightarrow>
     event list \<times> (error + APIResponse)" where
  "SendText pf c ctx payload =
     (case resolveDeviceID c (txt_DeviceID payload) of
        Inl err \<Rightarrow> ([], Inl err)
      | Inr did \<Rightarrow>
         (let payload1 = payload\<lparr>txt_DeviceID := did\<rparr>
          in case TextRequest_validate payload1 of
               Some err \<Rightarrow> ([], Inl err)
             | None \<Rightarrow> doJSON pf c ctx textEndpoint (TextPayload payload1)))"

definition readFile :: "platform \<Rightarrow> string \<Rightarrow> error + bytes" where
  "readFile pf path =
     (case osReadFile pf path of
        Inl err \<Rightarrow> Inl (Wrapf ''quote0: read image file'' err)
      | Inr data \<Rightarrow> Inr data)"

definition SendImage ::
  "platform \<Rightarrow> Client \<Rightarrow> Context option \<Rightarrow> ImageRequest \<Rightarrow>
     event list \<times> (error + APIResponse)" where
  "SendImage pf c ctx payload =
     (case resolveDeviceID c (img_DeviceID payload) of
        Inl err \<Rightarrow> ([], Inl err)
      | Inr did \<Rightarrow>
         (let payload1 = payload\<lparr>img_DeviceID := did\<rparr>;
              normalized =
                (if TrimSpace (img_Image payload1) = [] then
                   (if length (img_ImageBytes payload1) > 0
                    then Inr (payload1\<lparr>img_Image := encodeBase64 (img_ImageBytes payload1)\<rparr>)
                    else (let p = TrimSpace (img_ImagePath payload1)
                          in if p \<noteq> [] then
                               (case readFile pf p of
                                  Inl readErr \<Rightarrow> Inl readErr
                                | Inr data \<Rightarrow> Inr (payload1\<lparr>img_Image := encodeBase64 data\<rparr>))
                             else Inr payload1))
                 else Inr payload1)
          in case normalized of
               Inl readErr \<Rightarrow> ([], Inl readErr)
             | Inr payload2 \<Rightarrow>
                (case ImageRequest_validate payload2 of
                   Some err \<Rightarrow> ([], Inl err)
                 | None \<Rightarrow> doJSON pf c ctx imageEndpoint (ImagePayload payload2))))"

section \<open>Inputs taken from the package's tests\<close>

text \<open>
  The tests of the package run the client against a local server. \<open>testPlatform\<close>
  decodes the JSON texts of the tests and two more error bodies, rejects every other
  text as \<^verbatim>\<open>json.Unmarshal\<close> rejects a text that is not JSON, and knows one image file;
  \<open>testClient\<close> is the client of \<^verbatim>\<open>TestSendText_SuccessJSON\<close> with the default device
  of \<^verbatim>\<open>TestSendText_AllFieldsOptional\<close>: its limiter never delays, and its server
  replies to every request with status 200 and a JSON envelope.
\<close>

definition testPlatform :: platform where
  \<open>testPlatform =
     \<lparr>unmarshalMap = (\<lambda>body.
        if body = ''{"code":"E100","message":"boom"}''
        then Inr (Some [''code'' \<mapsto> JString ''E100'', ''message'' \<mapsto> JString ''boom''])
        else if body = ''{"code":429,"error":"slow down"}''
        then Inr (Some [''code'' \<mapsto> JNumber 429, ''error'' \<mapsto> JString ''slow down''])
        else if body = ''{"message":"x"}''
        then Inr (Some [''message'' \<mapsto> JString ''x''])
        else Inl (Foreign ''invalid character'')),
      unmarshalEnvelope = (\<lambda>raw (c, m, r).
        if raw = ''{"code":0,"message":"ok"}'' then ((0, ''ok'', r), None)
        else ((c, m, r), Some (Foreign ''invalid character''))),
      intOutOfRange = - (2 ^ 63),
      unicodeLower = (\<lambda>s. s),
      osReadFile = (\<lambda>path.
        if path = ''img.png'' then Inr [CHR 0x89, CHR 0x50, CHR 0x4E, CHR 0x47]
        else Inl (Foreign ''no such file or directory'')),
      urlError = (\<lambda>url. None)\<rparr>\<close>

definition testClient :: Client where
  \<open>testClient =
     \<lparr>cl_baseURL = ''http://127.0.0.1'', cl_apiKey = ''test'',
      cl_http = (\<lambda>req. Inr \<lparr>resp_StatusCode = 200,
                               resp_ContentType = ''application/json'',
                               resp_Body = ''{"code":0,"message":"ok"}'',
                               resp_BodyErr = None\<rparr>),
      cl_limiter = Some (\<lambda>ctx. None),
      cl_userAgent = ''quote0-go-sdk/1.0'',
      cl_defaultDevice = ''DEF''\<rparr>\<close>

text \<open>The zero values \<^verbatim>\<open>TextRequest{}\<close> and \<^verbatim>\<open>ImageRequest{}\<close>.\<close>

definition emptyText :: TextRequest where
  "emptyText =
     \<lparr>txt_RefreshNow = None, txt_DeviceID = [], txt_Title = [], txt_Message = [],
      txt_Signature = [], txt_Icon = [], txt_Link = []\<rparr>"

definition emptyImage :: ImageRequest where
  "emptyImage =
     \<lparr>img_RefreshNow = None, img_DeviceID = [], img_Image = [], img_ImageBytes = [],
      img_ImagePath = [], img_Link = [], img_Border = 0, img_DitherType = [],
      img_DitherKernel = []\<rparr>"

section \<open>Trimming is idempotent\<close>

lemma trimLeftRunes_none:
  "find (\<lambda>p. p \<noteq> [] \<and> prefix p s) ps = None \<Longrightarrow> trimLeftRunes ps s = s"
  by (subst trimLeftRunes.simps) simp

lemma trimLeftRunes_no_leading:
  "find (\<lambda>p. p \<noteq> [] \<and> prefix p (trimLeftRunes ps s)) ps = None"
proof (induction ps s rule: trimLeftRunes.induct)
  case (1 ps s)
  show ?case
  proof (cases "find (\<lambda>p. p \<noteq> [] \<and> prefix p s) ps")
    case None
    then show ?thesis by (simp add: trimLeftRunes_none)
  next
    case (Some p)
    then have "trimLeftRunes ps s = trimLeftRunes ps (drop (length p) s)"
      by (subst trimLeftRunes.simps) simp
    with 1 Some show ?thesis by simp
  qed
qed

lemma trimLeftRunes_suffix: "suffix (trimLeftRunes ps s) s"
proof (induction ps s rule: trimLeftRunes.induct)
  case (1 ps s)
  show ?case
  proof (cases "find (\<lambda>p. p \<noteq> [] \<and> prefix p s) ps")
    case None
    then show ?thesis by (simp add: trimLeftRunes_none)
  next
    case (Some p)
    then have eq: "trimLeftRunes ps s = trimLeftRunes ps (drop (length p) s)"
      by (subst trimLeftRunes.simps) simp
    have "suffix (trimLeftRunes ps (drop (length p) s)) (drop (length p) s)"
      using 1 Some by simp
    then show ?thesis
      unfolding eq using suffix_drop suffix_order.trans by blast
  qed
qed

lemma trimLeftRunes_idem: "trimLeftRunes ps (trimLeftRunes ps s) = trimLeftRunes ps s"
  by (rule trimLeftRunes_none) (rule trimLeftRunes_no_leading)

lemma no_leading_prefix:
  assumes "find (\<lambda>p. p \<noteq> [] \<and> prefix p s) ps = None" and "prefix t s"
  shows "find (\<lambda>p. p \<noteq> [] \<and> prefix p t) ps = None"
  using assms by (auto simp: find_None_iff dest: prefix_order.trans)

lemma TrimSpace_idem: "TrimSpace (TrimSpace s) = TrimSpace s"
proof -
  let ?t = "trimLeftRunes spaceRunes s"
  let ?u = "rev (trimLeftRunes (map rev spaceRunes) (rev ?t))"
  have "suffix (trimLeftRunes (map rev spaceRunes) (rev ?t)) (rev ?t)"
    by (rule trimLeftRunes_suffix)
  then have "prefix ?u ?t"
    by (metis rev_rev_ident suffix_to_prefix)
  then have "find (\<lambda>p. p \<noteq> [] \<and> prefix p ?u) spaceRunes = None"
    using no_leading_prefix trimLeftRunes_no_leading by blast
  then have "trimLeftRunes spaceRunes ?u = ?u"
    by (rule trimLeftRunes_none)
  then show ?thesis
    by (simp add: TrimSpace_def trimLeftRunes_idem)
qed

lemma TrimSpace_Nil: "TrimSpace [] = []"
  by (simp add: TrimSpace_def trimLeftRunes_none find_None_iff)

section \<open>Lemmas about the dispatch\<close>

lemma resolveDeviceID_cases:
  "resolveDeviceID c e =
     (if TrimSpace e \<noteq> [] then Inr (TrimSpace e)
      else if TrimSpace (cl_defaultDevice c) \<noteq> [] then Inr (TrimSpace (cl_defaultDevice c))
      else Inl ErrDeviceIDMissing)"
  by (simp add: resolveDeviceID_def Let_def)

lemma resolveDeviceID_Inr:
  "resolveDeviceID c e = Inr did \<Longrightarrow> did \<noteq> [] \<and> TrimSpace did = did"
  by (auto simp: resolveDeviceID_cases TrimSpace_idem split: if_splits)

lemma doJSON_HTTPDo:
  "HTTPDo req \<in> set (fst (doJSON pf c ctx ep payload)) \<Longrightarrow> req_Body req = jsonMarshal payload"
  by (auto simp: doJSON_def Let_def newRequest_def split: option.splits prod.splits sum.splits if_splits)

lemma deviceId_member_text:
  "map_of (jsonMarshal (TextPayload r)) ''deviceId'' = Some (WString (txt_DeviceID r))"
  by (simp add: omitemptyBoolPtr_def omitemptyString_def split: option.splits)

lemma deviceId_member_image:
  "map_of (jsonMarshal (ImagePayload r)) ''deviceId'' = Some (WString (img_DeviceID r))"
  by (simp add: omitemptyBoolPtr_def omitemptyString_def omitemptyInt_def split: option.splits)

lemma SendText_resolved:
  assumes "resolveDeviceID c (txt_DeviceID t) = Inr did"
  shows "SendText pf c ctx t = doJSON pf c ctx textEndpoint (TextPayload (t\<lparr>txt_DeviceID := did\<rparr>))"
  using assms resolveDeviceID_Inr[OF assms]
  by (simp add: SendText_def TextRequest_validate_def)

lemma SendImage_unresolved:
  "resolveDeviceID c (img_DeviceID p) = Inl err \<Longrightarrow> SendImage pf c ctx p = ([], Inl err)"
  by (simp add: SendImage_def)

lemma SendImage_HTTPDo:
  assumes "resolveDeviceID c (img_DeviceID p) = Inr did"
    and "HTTPDo req \<in> set (fst (SendImage pf c ctx p))"
  shows "map_of (req_Body req) ''deviceId'' = Some (WString did)"
proof -
  from assms obtain q where q: "HTTPDo req \<in> set (fst (doJSON pf c ctx imageEndpoint (ImagePayload q)))"
    and d: "img_DeviceID q = did"
    by (auto simp: SendImage_def Let_def split: if_splits sum.splits option.splits)
  from doJSON_HTTPDo[OF q] d show ?thesis
    by (simp only: deviceId_member_image)
qed

lemma TrimSpace_DEF: "TrimSpace ''DEF'' = ''DEF''"
  by code_simp

lemma TrimSpace_blank: "TrimSpace ''  '' = []"
  by code_simp

lemma resolve_test_default:
  "resolveDeviceID testClient (txt_DeviceID emptyText) = Inr ''DEF''"
  by (simp add: resolveDeviceID_cases testClient_def emptyText_def TrimSpace_DEF TrimSpace_Nil)

lemma TrimSpace_keep:
  assumes "s \<noteq> []" and "hd s \<notin> hd ` set spaceRunes" and "last s \<notin> last ` set spaceRunes"
  shows "TrimSpace s = s"
proof -
  have "\<not> (p \<noteq> [] \<and> prefix p s)" if "p \<in> set spaceRunes" for p
  proof
    assume "p \<noteq> [] \<and> prefix p s"
    then have "hd p = hd s" by (auto simp: prefix_def)
    with that assms(2) show False by (metis imageI)
  qed
  then have 1: "trimLeftRunes spaceRunes s = s"
    by (intro trimLeftRunes_none) (simp add: find_None_iff)
  have "\<not> (p \<noteq> [] \<and> prefix p (rev s))" if "p \<in> set (map rev spaceRunes)" for p
  proof
    assume a: "p \<noteq> [] \<and> prefix p (rev s)"
    from that obtain q where q: "q \<in> set spaceRunes" "p = rev q" by auto
    from a have "hd p = hd (rev s)" by (auto simp: prefix_def)
    with q a assms(1) have "last q = last s" by (simp add: hd_rev)
    with q assms(3) show False by (metis imageI)
  qed
  then have 2: "trimLeftRunes (map rev spaceRunes) (rev s) = rev s"
    by (intro trimLeftRunes_none) (simp only: find_None_iff, blast)
  show ?thesis by (simp add: TrimSpace_def 1 2)
qed

lemma TrimSpace_UA: "TrimSpace ''quote0-go-sdk/1.0'' = ''quote0-go-sdk/1.0''"
  by (rule TrimSpace_keep) (simp_all add: spaceRunes_def)

lemma doJSON_test_text:
  \<open>doJSON testPlatform testClient None textEndpoint (TextPayload (emptyText\<lparr>txt_DeviceID := ''DEF''\<rparr>)) =
     ([LimiterWait Background,
       HTTPDo \<lparr>req_ctx = Background, req_Method = ''POST'',
               req_URL = ''http://127.0.0.1/api/open/text'',
               req_Header = [(''Authorization'', ''Bearer test''),
                             (''Content-Type'', ''application/json''),
                             (''User-Agent'', ''quote0-go-sdk/1.0'')],
               req_Body = [(''deviceId'', WString ''DEF'')]\<rparr>],
      Inr \<lparr>ar_Code = 0, ar_Message = ''ok'', ar_Result = [], ar_StatusCode = 200,
           ar_RawBody = ''{"code":0,"message":"ok"}''\<rparr>)\<close>
  by (simp add: doJSON_def testClient_def testPlatform_def Let_def newRequest_def textEndpoint_def
       emptyText_def omitemptyBoolPtr_def omitemptyString_def readAllLimited_def maxResponseBodySize_def
       ToLower_def asciiLower_def Contains_def unmarshalAPIResponse_def TrimSpace_UA)

section \<open>The effective device id\<close>

text \<open>
  C1. A dispatch resolves the device id first. The explicit id of the operation is used
  (with surrounding white space removed) when it is not blank; otherwise the default id
  of the client is used, which the setter stores trimmed; when both are blank the call
  returns \<open>ErrDeviceIDMissing\<close> with an empty trace: no wait on the limiter and no
  request. Every request that a dispatch hands to the transport carries the resolved
  id as its \<open>deviceId\<close> member.
\<close>

theorem effective_device_id:
  "resolveDeviceID c e =
     (if TrimSpace e \<noteq> [] then Inr (TrimSpace e)
      else if TrimSpace (cl_defaultDevice c) \<noteq> [] then Inr (TrimSpace (cl_defaultDevice c))
      else Inl ErrDeviceIDMissing)
   \<and> TrimSpace (cl_defaultDevice (SetDefaultDeviceID c d)) = cl_defaultDevice (SetDefaultDeviceID c d)
   \<and> (TrimSpace (txt_DeviceID t) = [] \<and> TrimSpace (cl_defaultDevice c) = [] \<longrightarrow>
        SendText pf c ctx t = ([], Inl ErrDeviceIDMissing))
   \<and> (TrimSpace (img_DeviceID i) = [] \<and> TrimSpace (cl_defaultDevice c) = [] \<longrightarrow>
        SendImage pf c ctx i = ([], Inl ErrDeviceIDMissing))
   \<and> (\<forall>did req. resolveDeviceID c (txt_DeviceID t) = Inr did \<and>
          HTTPDo req \<in> set (fst (SendText pf c ctx t)) \<longrightarrow>
          map_of (req_Body req) ''deviceId'' = Some (WString did))
   \<and> (\<forall>did req. resolveDeviceID c (img_DeviceID i) = Inr did \<and>
          HTTPDo req \<in> set (fst (SendImage pf c ctx i)) \<longrightarrow>
          map_of (req_Body req) ''deviceId'' = Some (WString did))"
proof (intro conjI allI impI)
  show "resolveDeviceID c e =
     (if TrimSpace e \<noteq> [] then Inr (TrimSpace e)
      else if TrimSpace (cl_defaultDevice c) \<noteq> [] then Inr (TrimSpace (cl_defaultDevice c))
      else Inl ErrDeviceIDMissing)"
    by (rule resolveDeviceID_cases)
  show "TrimSpace (cl_defaultDevice (SetDefaultDeviceID c d)) = cl_defaultDevice (SetDefaultDeviceID c d)"
    by (simp add: SetDefaultDeviceID_def TrimSpace_idem)
next
  assume "TrimSpace (txt_DeviceID t) = [] \<and> TrimSpace (cl_defaultDevice c) = []"
  then show "SendText pf c ctx t = ([], Inl ErrDeviceIDMissing)"
    by (simp add: SendText_def resolveDeviceID_cases)
next
  assume "TrimSpace (img_DeviceID i) = [] \<and> TrimSpace (cl_defaultDevice c) = []"
  then show "SendImage pf c ctx i = ([], Inl ErrDeviceIDMissing)"
    by (simp add: SendImage_unresolved resolveDeviceID_cases)
next
  fix did req
  assume a: "resolveDeviceID c (txt_DeviceID t) = Inr did \<and>
          HTTPDo req \<in> set (fst (SendText pf c ctx t))"
  then have r: "resolveDeviceID c (txt_DeviceID t) = Inr did"
    and h: "HTTPDo req \<in> set (fst (SendText pf c ctx t))" by simp_all
  from h have "HTTPDo req \<in> set (fst (doJSON pf c ctx textEndpoint (TextPayload (t\<lparr>txt_DeviceID := did\<rparr>))))"
    by (simp only: SendText_resolved[OF r])
  from doJSON_HTTPDo[OF this] show "map_of (req_Body req) ''deviceId'' = Some (WString did)"
    by (simp only: deviceId_member_text) simp
next
  fix did req
  assume "resolveDeviceID c (img_DeviceID i) = Inr did \<and>
          HTTPDo req \<in> set (fst (SendImage pf c ctx i))"
  then show "map_of (req_Body req) ''deviceId'' = Some (WString did)"
    using SendImage_HTTPDo by blast
qed

theorem effective_device_id_witness:
  "SendText testPlatform (testClient\<lparr>cl_defaultDevice := ''  ''\<rparr>) None emptyText
     = ([], Inl ErrDeviceIDMissing)
   \<and> resolveDeviceID testClient (txt_DeviceID emptyText) = Inr ''DEF''
   \<and> (\<exists>req. HTTPDo req \<in> set (fst (SendText testPlatform testClient None emptyText))
        \<and> map_of (req_Body req) ''deviceId'' = Some (WString ''DEF''))"
proof -
  have 1: "SendText testPlatform (testClient\<lparr>cl_defaultDevice := ''  ''\<rparr>) None emptyText
     = ([], Inl ErrDeviceIDMissing)"
    using effective_device_id [where c = "testClient\<lparr>cl_defaultDevice := ''  ''\<rparr>"
      and t = emptyText and pf = testPlatform and ctx = None]
    by (simp add: emptyText_def testClient_def TrimSpace_blank TrimSpace_Nil)
  have 2: "resolveDeviceID testClient (txt_DeviceID emptyText) = Inr ''DEF''"
    by (rule resolve_test_default)
  let ?req = "newRequest testClient Background textEndpoint
                (TextPayload (emptyText\<lparr>txt_DeviceID := ''DEF''\<rparr>))"
  have 3: "HTTPDo ?req \<in> set (fst (SendText testPlatform testClient None emptyText))"
    by (simp only: SendText_resolved[OF 2])
       (simp add: doJSON_def testClient_def testPlatform_def Let_def)
  from 2 3 effective_device_id [where c = testClient and t = emptyText
      and pf = testPlatform and ctx = None]
  have "map_of (req_Body ?req) ''deviceId'' = Some (WString ''DEF'')"
    by blast
  with 1 2 3 show ?thesis by blast
qed

section \<open>Classification of errors\<close>

text \<open>
  C8. An error is rate-limited exactly when it is an APIError of status 429, and an
  authentication failure exactly when it is an APIError of status 401 or 403. So an
  APIError of any other status satisfies neither predicate, and an error that is not an
  APIError satisfies neither.
\<close>

theorem error_classification:
  "IsRateLimitError e = (\<exists>ae. e = ErrAPI ae \<and> ae_StatusCode ae = 429) \<and>
   IsAuthError e =
     (\<exists>ae. e = ErrAPI ae \<and> (ae_StatusCode ae = 401 \<or> ae_StatusCode ae = 403))"
  by (cases e) simp_all

section \<open>Image operations without a payload\<close>

text \<open>
  C7. An image operation whose device id resolves, and which has a blank \<open>Image\<close>, no
  \<open>ImageBytes\<close> and a blank \<open>ImagePath\<close>, fails with \<open>ErrImagePayloadMissing\<close>; the trace
  of the call is empty, so nothing was sent and the limiter was not touched.
\<close>

theorem image_payload_missing:
  assumes "resolveDeviceID c (img_DeviceID i) = Inr did"
    and "TrimSpace (img_Image i) = []"
    and "img_ImageBytes i = []"
    and "TrimSpace (img_ImagePath i) = []"
  shows "SendImage pf c ctx i = ([], Inl ErrImagePayloadMissing)"
  using assms resolveDeviceID_Inr[OF assms(1)]
  by (simp add: SendImage_def ImageRequest_validate_def)

theorem image_payload_missing_witness:
  "resolveDeviceID testClient (img_DeviceID emptyImage) = Inr ''DEF''
   \<and> TrimSpace (img_Image emptyImage) = []
   \<and> img_ImageBytes emptyImage = []
   \<and> TrimSpace (img_ImagePath emptyImage) = []
   \<and> SendImage testPlatform testClient None emptyImage = ([], Inl ErrImagePayloadMissing)"
proof -
  have r: "resolveDeviceID testClient (img_DeviceID emptyImage) = Inr ''DEF''"
    by (simp add: resolveDeviceID_cases testClient_def emptyImage_def TrimSpace_DEF TrimSpace_Nil)
  have e: "TrimSpace (img_Image emptyImage) = []" "img_ImageBytes emptyImage = []"
    "TrimSpace (img_ImagePath emptyImage) = []"
    by (simp_all add: emptyImage_def TrimSpace_Nil)
  from image_payload_missing [OF r e] r e show ?thesis by simp
qed

section \<open>Text operations need a device id only\<close>

text \<open>
  C10. Validation of a text operation succeeds exactly when its device id is not blank;
  it never reports a missing title or message. Once the device id has resolved, the
  operation passes validation whatever its other fields are, and the call is the
  dispatch of the operation with the resolved id. The witness is the empty operation
  sent by a client with a default device: its request body has the \<open>deviceId\<close> member
  alone.
\<close>

theorem text_validation_permissive:
  "(TextRequest_validate r = None) = (TrimSpace (txt_DeviceID r) \<noteq> [])
   \<and> TextRequest_validate r \<noteq> Some ErrTitleMissing
   \<and> TextRequest_validate r \<noteq> Some ErrMessageMissing
   \<and> (resolveDeviceID c (txt_DeviceID t) = Inr did \<longrightarrow>
        TextRequest_validate (t\<lparr>txt_DeviceID := did\<rparr>) = None
        \<and> SendText pf c ctx t =
            doJSON pf c ctx textEndpoint (TextPayload (t\<lparr>txt_DeviceID := did\<rparr>)))"
proof (intro conjI impI)
  assume r: "resolveDeviceID c (txt_DeviceID t) = Inr did"
  show "TextRequest_validate (t\<lparr>txt_DeviceID := did\<rparr>) = None"
    using resolveDeviceID_Inr[OF r] by (simp add: TextRequest_validate_def)
  show "SendText pf c ctx t =
            doJSON pf c ctx textEndpoint (TextPayload (t\<lparr>txt_DeviceID := did\<rparr>))"
    by (rule SendText_resolved[OF r])
qed (simp_all add: TextRequest_validate_def)

theorem text_validation_permissive_witness:
  \<open>resolveDeviceID testClient (txt_DeviceID emptyText) = Inr ''DEF''
   \<and> TextRequest_validate (emptyText\<lparr>txt_DeviceID := ''DEF''\<rparr>) = None
   \<and> SendText testPlatform testClient None emptyText =
     ([LimiterWait Background,
       HTTPDo \<lparr>req_ctx = Background, req_Method = ''POST'',
               req_URL = ''http://127.0.0.1/api/open/text'',
               req_Header = [(''Authorization'', ''Bearer test''),
                             (''Content-Type'', ''application/json''),
                             (''User-Agent'', ''quote0-go-sdk/1.0'')],
               req_Body = [(''deviceId'', WString ''DEF'')]\<rparr>],
      Inr \<lparr>ar_Code = 0, ar_Message = ''ok'', ar_Result = [], ar_StatusCode = 200,
           ar_RawBody = ''{"code":0,"message":"ok"}''\<rparr>)\<close>
  using text_validation_permissive [where c = testClient and t = emptyText and did = "''DEF''"
      and pf = testPlatform and ctx = None]
    resolve_test_default doJSON_test_text
  by simp

section \<open>The limiter spaces the calls\<close>

lemma Wait_state:
  "0 \<le> now \<Longrightarrow>
   snd (snd (Wait te l ctx now pd)) = l\<lparr>lim_next := max (lim_next l) now + lim_minInterval l\<rparr>"
  by (auto simp: Wait_def IsZero_def Let_def max_def split: option.splits)

lemma Wait_released:
  "0 \<le> now \<Longrightarrow> lim_next l - now \<le> maxDuration \<Longrightarrow> lim_next l \<le> te \<Longrightarrow>
   fst (Wait te l ctx now pd) = None \<Longrightarrow>
   fst (snd (Wait te l ctx now pd)) = max (lim_next l) now"
  by (auto simp: Wait_def IsZero_def Let_def max_def Sub_def timerFires_def minDuration_def
      maxDuration_def split: option.splits if_splits)

lemma Waits_Cons:
  "Waits te l ((ctx, now, pd) # calls) =
     ((fst (Wait te l ctx now pd), fst (snd (Wait te l ctx now pd)))
        # fst (Waits te (snd (snd (Wait te l ctx now pd))) calls),
      snd (Waits te (snd (snd (Wait te l ctx now pd))) calls))"
  by (simp split: prod.splits)

text \<open>
  The range in which no wait saturates and no timer is clamped: the clock readings lie
  between \<open>lo\<close> and \<open>b\<close>, the stored instant is at most \<open>b\<close>, and \<open>b\<close> plus one interval
  for each call is within the largest duration of \<open>lo\<close> and not after \<open>timerEnd\<close>.
\<close>

lemma Waits_lower:
  assumes "0 \<le> lim_minInterval l" and "0 \<le> lo"
    and "\<forall>(ctx, now, pd) \<in> set calls. lo \<le> now \<and> now \<le> b"
    and "lim_next l \<le> b"
    and "b + int (length calls) * lim_minInterval l \<le> lo + maxDuration"
    and "b + int (length calls) * lim_minInterval l \<le> te"
    and "(None, ret) \<in> set (fst (Waits te l calls))"
  shows "lim_next l \<le> ret"
  using assms
proof (induction calls arbitrary: l b)
  case Nil
  then show ?case by simp
next
  case (Cons call calls)
  obtain ctx now pd where call: "call = (ctx, now, pd)" by (cases call)
  let ?I = "lim_minInterval l"
  let ?l' = "snd (snd (Wait te l ctx now pd))"
  from Cons.prems call have now: "0 \<le> now" "lo \<le> now" "now \<le> b" by auto
  have l': "?l' = l\<lparr>lim_next := max (lim_next l) now + ?I\<rparr>"
    using now(1) by (rule Wait_state)
  have nI: "0 \<le> int (length calls) * ?I"
    using Cons.prems(1) by simp
  have e: "int (length (call # calls)) * ?I = ?I + int (length calls) * ?I"
    by (simp add: algebra_simps)
  have r1: "lim_next l - now \<le> maxDuration" "lim_next l \<le> te"
    using Cons.prems(4,5,6) now nI Cons.prems(1) unfolding e by linarith+
  from Cons.prems(7) consider
      (head) "fst (Wait te l ctx now pd) = None" "ret = fst (snd (Wait te l ctx now pd))"
    | (tail) "(None, ret) \<in> set (fst (Waits te ?l' calls))"
    unfolding call Waits_Cons by auto
  then show ?case
  proof cases
    case head
    then show ?thesis using Wait_released[OF now(1) r1] by simp
  next
    case tail
    have "lim_next ?l' \<le> ret"
    proof (rule Cons.IH[of ?l' "b + ?I"])
      show "0 \<le> lim_minInterval ?l'" using l' Cons.prems(1) by simp
      show "0 \<le> lo" by (rule Cons.prems(2))
      show "\<forall>(ctx, now, pd) \<in> set calls. lo \<le> now \<and> now \<le> b + ?I"
        using Cons.prems(3) Cons.prems(1) by fastforce
      show "lim_next ?l' \<le> b + ?I" using l' Cons.prems(4) now by simp
      show "b + ?I + int (length calls) * lim_minInterval ?l' \<le> lo + maxDuration"
        using l' Cons.prems(5) by (simp add: algebra_simps)
      show "b + ?I + int (length calls) * lim_minInterval ?l' \<le> te"
        using l' Cons.prems(6) by (simp add: algebra_simps)
      show "(None, ret) \<in> set (fst (Waits te ?l' calls))" by (rule tail)
    qed
    then show ?thesis using l' Cons.prems(1) by simp
  qed
qed

lemma Waits_spaced:
  assumes "0 \<le> lim_minInterval l" and "0 \<le> lo"
    and "\<forall>(ctx, now, pd) \<in> set calls. lo \<le> now \<and> now \<le> b"
    and "lim_next l \<le> b"
    and "b + int (length calls) * lim_minInterval l \<le> lo + maxDuration"
    and "b + int (length calls) * lim_minInterval l \<le> te"
  shows "sorted_wrt (\<lambda>x y. fst x = None \<and> fst y = None \<longrightarrow> snd x + lim_minInterval l \<le> snd y)
     (fst (Waits te l calls))"
  using assms
proof (induction calls arbitrary: l b)
  case Nil
  then show ?case by simp
next
  case (Cons call calls)
  obtain ctx now pd where call: "call = (ctx, now, pd)" by (cases call)
  let ?I = "lim_minInterval l"
  let ?l' = "snd (snd (Wait te l ctx now pd))"
  from Cons.prems call have now: "0 \<le> now" "lo \<le> now" "now \<le> b" by auto
  have l': "?l' = l\<lparr>lim_next := max (lim_next l) now + ?I\<rparr>"
    using now(1) by (rule Wait_state)
  have nI: "0 \<le> int (length calls) * ?I"
    using Cons.prems(1) by simp
  have e: "int (length (call # calls)) * ?I = ?I + int (length calls) * ?I"
    by (simp add: algebra_simps)
  have r1: "lim_next l - now \<le> maxDuration" "lim_next l \<le> te"
    using Cons.prems(4,5,6) now nI Cons.prems(1) unfolding e by linarith+
  have t1: "0 \<le> lim_minInterval ?l'" using l' Cons.prems(1) by simp
  have t3: "\<forall>(ctx, now, pd) \<in> set calls. lo \<le> now \<and> now \<le> b + ?I"
    using Cons.prems(3) Cons.prems(1) by fastforce
  have t4: "lim_next ?l' \<le> b + ?I" using l' Cons.prems(4) now by simp
  have t5: "b + ?I + int (length calls) * lim_minInterval ?l' \<le> lo + maxDuration"
    using l' Cons.prems(5) by (simp add: algebra_simps)
  have t6: "b + ?I + int (length calls) * lim_minInterval ?l' \<le> te"
    using l' Cons.prems(6) by (simp add: algebra_simps)
  have tl: "sorted_wrt (\<lambda>x y. fst x = None \<and> fst y = None \<longrightarrow> snd x + ?I \<le> snd y)
     (fst (Waits te ?l' calls))"
    using Cons.IH[OF t1 Cons.prems(2) t3 t4 t5 t6] l' by simp
  have hd: "snd (fst (Wait te l ctx now pd), fst (snd (Wait te l ctx now pd))) + ?I \<le> snd y"
    if "fst (Wait te l ctx now pd) = None" and y: "y \<in> set (fst (Waits te ?l' calls))"
      and "fst y = None" for y
  proof -
    from y that(3) have "(None, snd y) \<in> set (fst (Waits te ?l' calls))"
      by (metis prod.collapse)
    then have "lim_next ?l' \<le> snd y"
      by (rule Waits_lower[OF t1 Cons.prems(2) t3 t4 t5 t6])
    then show ?thesis
      using Wait_released[OF now(1) r1 that(1)] l' by simp
  qed
  show ?case
    unfolding call Waits_Cons using tl hd by simp
qed

text \<open>
  C4, within the range of durations and timers. A limiter made by
  \<open>NewFixedIntervalLimiter\<close> stores a positive interval as it is and one second for any
  other. With a clock that is not before the zero instant, one \<open>Wait\<close> takes the later
  of the stored instant and the clock reading as its release instant and stores that
  instant plus the interval; when the wait fits a duration and a timer, a call that
  returns nil returns at that instant. Hence, in any sequence of calls on one limiter
  that stays within that range, two calls that return nil return at least the interval
  apart, wherever the clock stood when they were made.
\<close>

theorem limiter_spacing:
  "lim_minInterval (NewFixedIntervalLimiter d) = (if d \<le> 0 then Second else d)
   \<and> 0 < lim_minInterval (NewFixedIntervalLimiter d)
   \<and> (0 \<le> now \<longrightarrow>
        snd (snd (Wait timerEnd l ctx now pd)) =
          l\<lparr>lim_next := max (lim_next l) now + lim_minInterval l\<rparr>)
   \<and> (0 \<le> now \<and> lim_next l - now \<le> maxDuration \<and> lim_next l \<le> timerEnd
        \<and> fst (Wait timerEnd l ctx now pd) = None \<longrightarrow>
        fst (snd (Wait timerEnd l ctx now pd)) = max (lim_next l) now)
   \<and> (0 \<le> lim_minInterval l \<and> 0 \<le> lo
        \<and> (\<forall>(ctx, now, pd) \<in> set calls. lo \<le> now \<and> now \<le> hi)
        \<and> lim_next l \<le> hi
        \<and> hi + int (length calls) * lim_minInterval l \<le> lo + maxDuration
        \<and> hi + int (length calls) * lim_minInterval l \<le> timerEnd \<longrightarrow>
        (\<forall>i j. i < j \<and> j < length (fst (Waits timerEnd l calls))
                \<and> fst (fst (Waits timerEnd l calls) ! i) = None
                \<and> fst (fst (Waits timerEnd l calls) ! j) = None \<longrightarrow>
              snd (fst (Waits timerEnd l calls) ! i) + lim_minInterval l
                \<le> snd (fst (Waits timerEnd l calls) ! j)))"
proof (intro conjI impI allI)
  show "lim_minInterval (NewFixedIntervalLimiter d) = (if d \<le> 0 then Second else d)"
    by (simp add: NewFixedIntervalLimiter_def)
  show "0 < lim_minInterval (NewFixedIntervalLimiter d)"
    by (simp add: NewFixedIntervalLimiter_def Second_def)
next
  assume "0 \<le> now"
  then show "snd (snd (Wait timerEnd l ctx now pd)) =
          l\<lparr>lim_next := max (lim_next l) now + lim_minInterval l\<rparr>"
    by (rule Wait_state)
next
  assume "0 \<le> now \<and> lim_next l - now \<le> maxDuration \<and> lim_next l \<le> timerEnd
        \<and> fst (Wait timerEnd l ctx now pd) = None"
  then show "fst (snd (Wait timerEnd l ctx now pd)) = max (lim_next l) now"
    using Wait_released by blast
next
  fix i j
  assume h: "0 \<le> lim_minInterval l \<and> 0 \<le> lo
        \<and> (\<forall>(ctx, now, pd) \<in> set calls. lo \<le> now \<and> now \<le> hi)
        \<and> lim_next l \<le> hi
        \<and> hi + int (length calls) * lim_minInterval l \<le> lo + maxDuration
        \<and> hi + int (length calls) * lim_minInterval l \<le> timerEnd"
    and ij: "i < j \<and> j < length (fst (Waits timerEnd l calls))
                \<and> fst (fst (Waits timerEnd l calls) ! i) = None
                \<and> fst (fst (Waits timerEnd l calls) ! j) = None"
  from h have "sorted_wrt (\<lambda>x y. fst x = None \<and> fst y = None \<longrightarrow> snd x + lim_minInterval l \<le> snd y)
     (fst (Waits timerEnd l calls))"
    by (intro Waits_spaced[where lo = lo and b = hi]) simp_all
  with ij show "snd (fst (Waits timerEnd l calls) ! i) + lim_minInterval l
                \<le> snd (fst (Waits timerEnd l calls) ! j)"
    by (simp add: sorted_wrt_iff_nth_less)
qed

lemma Waits_back_to_back:
  "fst (Waits 9223372036854775807 (NewFixedIntervalLimiter (2 * Second))
          [(Background, 5, False), (Background, 5, False), (Background, 6, False)])
     = [(None, 5), (None, 2000000005), (None, 4000000005)]"
  by (simp add: NewFixedIntervalLimiter_def Wait_def IsZero_def Second_def Background_def
      Sub_def timerFires_def maxDuration_def minDuration_def)

theorem limiter_spacing_witness:
  "fst (Waits 9223372036854775807 (NewFixedIntervalLimiter (2 * Second))
          [(Background, 5, False), (Background, 5, False), (Background, 6, False)])
     = [(None, 5), (None, 2000000005), (None, 4000000005)]
   \<and> lim_minInterval (NewFixedIntervalLimiter (2 * Second)) = 2000000000
   \<and> (2000000005::int) + lim_minInterval (NewFixedIntervalLimiter (2 * Second)) \<le> 4000000005"
proof -
  let ?l = "NewFixedIntervalLimiter (2 * Second)"
  let ?calls = "[(Background, 5::int, False), (Background, 5, False), (Background, 6, False)]"
  have m: "lim_minInterval ?l = 2000000000"
    using limiter_spacing [where d = "2 * Second"] by (simp add: Second_def)
  have n: "lim_next ?l = 0"
    by (simp add: NewFixedIntervalLimiter_def)
  note th = limiter_spacing [where l = ?l and calls = ?calls and timerEnd = 9223372036854775807
      and lo = 5 and hi = 6, THEN conjunct2, THEN conjunct2, THEN conjunct2, THEN conjunct2,
      rule_format, of 1 2]
  have "snd (fst (Waits 9223372036854775807 ?l ?calls) ! 1) + lim_minInterval ?l
          \<le> snd (fst (Waits 9223372036854775807 ?l ?calls) ! 2)"
    by (rule th) (simp_all only: Waits_back_to_back m n, simp_all add: maxDuration_def)
  then have "(2000000005::int) + lim_minInterval ?l \<le> 4000000005"
    by (simp only: Waits_back_to_back) simp
  with m show ?thesis
    by (intro conjI) (rule Waits_back_to_back)
qed

text \<open>
  C4 as stated fails outside that range. With an interval of 200 years, three calls
  made at instant 5 on a fresh limiter are due at 5, at 5 plus the interval and at 5
  plus twice the interval. The wait of the third call exceeds the largest duration and
  saturates; with the runtime's clock started at the zero instant its timer fires at
  9223372036854775807, less than one interval after the release of the second call.
\<close>

theorem limiter_spacing_counterexample:
  "fst (Waits 9223372036854775807 (NewFixedIntervalLimiter (200 * 365 * 24 * 3600 * Second))
          [(Background, 5, False), (Background, 5, False), (Background, 5, False)])
     = [(None, 5), (None, 6307200000000000005), (None, 9223372036854775807)]
   \<and> lim_minInterval (NewFixedIntervalLimiter (200 * 365 * 24 * 3600 * Second))
       = 6307200000000000000
   \<and> (9223372036854775807::int) - 6307200000000000005 < 6307200000000000000"
  by (simp add: NewFixedIntervalLimiter_def Wait_def IsZero_def Second_def Background_def
      Sub_def timerFires_def maxDuration_def minDuration_def)

section \<open>Cancellation of a call that need not wait\<close>

text \<open>
  A call that has to wait and whose context is done before its timer fires returns the
  error of the context, at the later of the call and the cancellation.
\<close>

lemma Wait_cancelled_while_waiting:
  "\<not> IsZero (lim_next l) \<Longrightarrow> now < lim_next l \<Longrightarrow> ctx_doneAt ctx = Some d \<Longrightarrow>
   d < timerFires timerEnd now (Sub (lim_next l) now) \<Longrightarrow>
   fst (Wait timerEnd l ctx now pd) = Some (ctx_err ctx)
   \<and> fst (snd (Wait timerEnd l ctx now pd)) = max now d"
  by (auto simp: Wait_def Let_def Sub_def maxDuration_def minDuration_def)

text \<open>
  C5 at the input where the code departs from it. The first call on a fresh limiter,
  made at instant 10 with a context that was cancelled at instant 5: the release
  instant of the call is 10, the cancellation came before it, and \<open>Wait\<close> returns nil,
  through its early return for a call that need not wait. A dispatch through a client
  with this limiter then hands its request to the transport although its context is
  cancelled.
\<close>

theorem cancelled_context_no_wait:
  "Wait 9223372036854775807 (NewFixedIntervalLimiter Second)
        \<lparr>ctx_doneAt = Some 5, ctx_err = Foreign ''context canceled''\<rparr> 10 True
     = (None, 10, \<lparr>lim_next = 10 + Second, lim_minInterval = Second\<rparr>)
   \<and> fst (doJSON testPlatform
          (testClient\<lparr>cl_limiter :=
             Some (\<lambda>ctx. fst (Wait 9223372036854775807 (NewFixedIntervalLimiter Second) ctx 10 True))\<rparr>)
          (Some \<lparr>ctx_doneAt = Some 5, ctx_err = Foreign ''context canceled''\<rparr>)
          textEndpoint (TextPayload (emptyText\<lparr>txt_DeviceID := ''DEF''\<rparr>)))
     = [LimiterWait \<lparr>ctx_doneAt = Some 5, ctx_err = Foreign ''context canceled''\<rparr>,
        HTTPDo (newRequest testClient
                  \<lparr>ctx_doneAt = Some 5, ctx_err = Foreign ''context canceled''\<rparr>
                  textEndpoint (TextPayload (emptyText\<lparr>txt_DeviceID := ''DEF''\<rparr>)))]"
proof -
  have w: "\<And>pd. fst (Wait 9223372036854775807 (NewFixedIntervalLimiter Second)
        \<lparr>ctx_doneAt = Some 5, ctx_err = Foreign ''context canceled''\<rparr> 10 pd) = None"
    by (simp add: Wait_def NewFixedIntervalLimiter_def IsZero_def)
  have 1: "Wait 9223372036854775807 (NewFixedIntervalLimiter Second)
        \<lparr>ctx_doneAt = Some 5, ctx_err = Foreign ''context canceled''\<rparr> 10 True
     = (None, 10, \<lparr>lim_next = 10 + Second, lim_minInterval = Second\<rparr>)"
    by (simp add: Wait_def NewFixedIntervalLimiter_def IsZero_def Second_def)
  have 2: "fst (doJSON testPlatform
          (testClient\<lparr>cl_limiter :=
             Some (\<lambda>ctx. fst (Wait 9223372036854775807 (NewFixedIntervalLimiter Second) ctx 10 True))\<rparr>)
          (Some \<lparr>ctx_doneAt = Some 5, ctx_err = Foreign ''context canceled''\<rparr>)
          textEndpoint (TextPayload (emptyText\<lparr>txt_DeviceID := ''DEF''\<rparr>)))
     = [LimiterWait \<lparr>ctx_doneAt = Some 5, ctx_err = Foreign ''context canceled''\<rparr>,
        HTTPDo (newRequest testClient
                  \<lparr>ctx_doneAt = Some 5, ctx_err = Foreign ''context canceled''\<rparr>
                  textEndpoint (TextPayload (emptyText\<lparr>txt_DeviceID := ''DEF''\<rparr>)))]"
    by (simp add: doJSON_def w Let_def testClient_def testPlatform_def newRequest_def
        TrimSpace_UA)
  from 1 2 show ?thesis by (rule conjI)
qed

section \<open>Optional fields on the wire\<close>

lemmas omitempty_defs = omitemptyBoolPtr_def omitemptyString_def omitemptyInt_def

lemma text_members:
  "map_of (jsonMarshal (TextPayload r)) ''refreshNow'' = map_option WBool (txt_RefreshNow r)"
  "map_of (jsonMarshal (TextPayload r)) ''title'' =
     (if txt_Title r = [] then None else Some (WString (txt_Title r)))"
  "map_of (jsonMarshal (TextPayload r)) ''message'' =
     (if txt_Message r = [] then None else Some (WString (txt_Message r)))"
  "map_of (jsonMarshal (TextPayload r)) ''signature'' =
     (if txt_Signature r = [] then None else Some (WString (txt_Signature r)))"
  "map_of (jsonMarshal (TextPayload r)) ''icon'' =
     (if txt_Icon r = [] then None else Some (WString (txt_Icon r)))"
  "map_of (jsonMarshal (TextPayload r)) ''link'' =
     (if txt_Link r = [] then None else Some (WString (txt_Link r)))"
  by (simp_all add: omitempty_defs split: option.splits)

lemma text_keys:
  "distinct (map fst (jsonMarshal (TextPayload r)))"
  "set (map fst (jsonMarshal (TextPayload r))) \<subseteq>
     {''refreshNow'', ''deviceId'', ''title'', ''message'', ''signature'', ''icon'', ''link''}"
  by (auto simp: omitempty_defs split: option.splits)

lemma image_members:
  "map_of (jsonMarshal (ImagePayload i)) ''refreshNow'' = map_option WBool (img_RefreshNow i)"
  "map_of (jsonMarshal (ImagePayload i)) ''image'' = Some (WString (img_Image i))"
  "map_of (jsonMarshal (ImagePayload i)) ''link'' =
     (if img_Link i = [] then None else Some (WString (img_Link i)))"
  "map_of (jsonMarshal (ImagePayload i)) ''border'' =
     (if img_Border i = 0 then None else Some (WInt (img_Border i)))"
  "map_of (jsonMarshal (ImagePayload i)) ''ditherType'' =
     (if img_DitherType i = [] then None else Some (WString (img_DitherType i)))"
  "map_of (jsonMarshal (ImagePayload i)) ''ditherKernel'' =
     (if img_DitherKernel i = [] then None else Some (WString (img_DitherKernel i)))"
  by (simp_all add: omitempty_defs split: option.splits)

lemma image_keys:
  "distinct (map fst (jsonMarshal (ImagePayload i)))"
  "set (map fst (jsonMarshal (ImagePayload i))) \<subseteq>
     {''refreshNow'', ''deviceId'', ''image'', ''link'', ''border'', ''ditherType'', ''ditherKernel''}"
  by (auto simp: omitempty_defs split: option.splits)

text \<open>
  C9. The members of a request body, key by key. An unset optional field (a nil
  \<open>RefreshNow\<close>, an empty string, the border 0, an empty dither type or kernel) has no
  member at all; \<open>deviceId\<close>, and \<open>image\<close> for an image request, are always members;
  no key occurs twice and there are no other keys. A border that is a member is the
  integer of its colour: 1 for black; white is 0, the zero value, which is left out.
\<close>

theorem optional_fields_omitted:
  "distinct (map fst (jsonMarshal (TextPayload r)))
   \<and> map_of (jsonMarshal (TextPayload r)) k =
       (if k = ''refreshNow'' then map_option WBool (txt_RefreshNow r)
        else if k = ''deviceId'' then Some (WString (txt_DeviceID r))
        else if k = ''title'' then
          (if txt_Title r = [] then None else Some (WString (txt_Title r)))
        else if k = ''message'' then
          (if txt_Message r = [] then None else Some (WString (txt_Message r)))
        else if k = ''signature'' then
          (if txt_Signature r = [] then None else Some (WString (txt_Signature r)))
        else if k = ''icon'' then
          (if txt_Icon r = [] then None else Some (WString (txt_Icon r)))
        else if k = ''link'' then
          (if txt_Link r = [] then None else Some (WString (txt_Link r)))
        else None)
   \<and> distinct (map fst (jsonMarshal (ImagePayload i)))
   \<and> map_of (jsonMarshal (ImagePayload i)) k =
       (if k = ''refreshNow'' then map_option WBool (img_RefreshNow i)
        else if k = ''deviceId'' then Some (WString (img_DeviceID i))
        else if k = ''image'' then Some (WString (img_Image i))
        else if k = ''link'' then
          (if img_Link i = [] then None else Some (WString (img_Link i)))
        else if k = ''border'' then
          (if img_Border i = 0 then None else Some (WInt (img_Border i)))
        else if k = ''ditherType'' then
          (if img_DitherType i = [] then None else Some (WString (img_DitherType i)))
        else if k = ''ditherKernel'' then
          (if img_DitherKernel i = [] then None else Some (WString (img_DitherKernel i)))
        else None)
   \<and> BorderWhite = 0 \<and> BorderBlack = 1"
proof -
  have t: "map_of (jsonMarshal (TextPayload r)) k = None"
    if "k \<notin> {''refreshNow'', ''deviceId'', ''title'', ''message'', ''signature'', ''icon'', ''link''}"
  proof -
    from that text_keys(2)[of r] have "k \<notin> fst ` set (jsonMarshal (TextPayload r))"
      by (simp only: set_map) blast
    then show ?thesis by (simp add: map_of_eq_None_iff del: jsonMarshal.simps)
  qed
  have im: "map_of (jsonMarshal (ImagePayload i)) k = None"
    if "k \<notin> {''refreshNow'', ''deviceId'', ''image'', ''link'', ''border'', ''ditherType'', ''ditherKernel''}"
  proof -
    from that image_keys(2)[of i] have "k \<notin> fst ` set (jsonMarshal (ImagePayload i))"
      by (simp only: set_map) blast
    then show ?thesis by (simp add: map_of_eq_None_iff del: jsonMarshal.simps)
  qed
  have T: "map_of (jsonMarshal (TextPayload r)) k =
       (if k = ''refreshNow'' then map_option WBool (txt_RefreshNow r)
        else if k = ''deviceId'' then Some (WString (txt_DeviceID r))
        else if k = ''title'' then
          (if txt_Title r = [] then None else Some (WString (txt_Title r)))
        else if k = ''message'' then
          (if txt_Message r = [] then None else Some (WString (txt_Message r)))
        else if k = ''signature'' then
          (if txt_Signature r = [] then None else Some (WString (txt_Signature r)))
        else if k = ''icon'' then
          (if txt_Icon r = [] then None else Some (WString (txt_Icon r)))
        else if k = ''link'' then
          (if txt_Link r = [] then None else Some (WString (txt_Link r)))
        else None)"
  proof (cases "k \<in> {''refreshNow'', ''deviceId'', ''title'', ''message'', ''signature'', ''icon'', ''link''}")
    case True
    then show ?thesis
      by (elim insertE emptyE) (simp_all add: text_members deviceId_member_text del: jsonMarshal.simps)
  next
    case False
    then show ?thesis using t by (simp del: jsonMarshal.simps)
  qed
  have I: "map_of (jsonMarshal (ImagePayload i)) k =
       (if k = ''refreshNow'' then map_option WBool (img_RefreshNow i)
        else if k = ''deviceId'' then Some (WString (img_DeviceID i))
        else if k = ''image'' then Some (WString (img_Image i))
        else if k = ''link'' then
          (if img_Link i = [] then None else Some (WString (img_Link i)))
        else if k = ''border'' then
          (if img_Border i = 0 then None else Some (WInt (img_Border i)))
        else if k = ''ditherType'' then
          (if img_DitherType i = [] then None else Some (WString (img_DitherType i)))
        else if k = ''ditherKernel'' then
          (if img_DitherKernel i = [] then None else Some (WString (img_DitherKernel i)))
        else None)"
  proof (cases "k \<in> {''refreshNow'', ''deviceId'', ''image'', ''link'', ''border'', ''ditherType'', ''ditherKernel''}")
    case True
    then show ?thesis
      by (elim insertE emptyE) (simp_all add: image_members deviceId_member_image del: jsonMarshal.simps)
  next
    case False
    then show ?thesis using im by (simp del: jsonMarshal.simps)
  qed
  show ?thesis
    by (intro conjI) (rule text_keys(1) T image_keys(1) I BorderWhite_def BorderBlack_def)+
qed

section \<open>The source of the image\<close>





















section \<open>Normalizing an error response\<close>

lemma isJSONObject_iff:
  "isJSONObject t = (t \<noteq> [] \<and> hd t = CHR ''{'' \<and> last t = CHR ''}'')"
proof -
  have p: "prefix ''{'' t = (t \<noteq> [] \<and> hd t = CHR ''{'')"
    by (cases t) auto
  have s: "suffix ''}'' t = (t \<noteq> [] \<and> last t = CHR ''}'')"
    by (cases t rule: rev_cases) auto
  show ?thesis
    unfolding isJSONObject_def HasPrefix_def HasSuffix_def p s by auto
qed

lemma tryParseJSON_cases:
  "tryParseJSON pf body = (case unmarshalMap pf body of Inr (Some obj) \<Rightarrow> Some obj | _ \<Rightarrow> None)"
  by (simp add: tryParseJSON_def split: sum.splits option.splits)

lemma buildAPIError_plain:
  "\<not> isJSONObject (TrimSpace body) \<or> tryParseJSON pf body = None \<Longrightarrow>
   buildAPIError pf status body =
     ErrAPI \<lparr>ae_StatusCode = status, ae_Code = [], ae_Message = TrimSpace body, ae_RawBody = body\<rparr>"
  by (auto simp: buildAPIError_def Let_def)

lemma buildAPIError_json:
  "isJSONObject (TrimSpace body) \<Longrightarrow> tryParseJSON pf body = Some obj \<Longrightarrow>
   buildAPIError pf status body =
     ErrAPI (extractErrorFields pf
       \<lparr>ae_StatusCode = status, ae_Code = [], ae_Message = TrimSpace body, ae_RawBody = body\<rparr>
       obj (TrimSpace body))"
  by (simp add: buildAPIError_def Let_def)

lemma extract_keeps:
  "ae_StatusCode (extractErrorFields pf ae obj fb) = ae_StatusCode ae"
  "ae_RawBody (extractErrorFields pf ae obj fb) = ae_RawBody ae"
  by (simp_all add: extractErrorFields_def Let_def split: prod.splits option.splits)

lemma extract_message:
  "ae_Message (extractErrorFields pf ae obj fb) =
     (case obj ''message'' of
        Some (JString m) \<Rightarrow>
          if m \<noteq> [] then m
          else (case obj ''error'' of
                  Some (JString m') \<Rightarrow> if m' \<noteq> [] then m' else fb
                | _ \<Rightarrow> fb)
      | _ \<Rightarrow>
          (case obj ''error'' of
             Some (JString m') \<Rightarrow> if m' \<noteq> [] then m' else fb
           | _ \<Rightarrow> fb))"
  by (simp add: extractErrorFields_def assertString_def Let_def
      split: prod.splits option.splits jvalue.splits)

lemma extract_code:
  "ae_Code (extractErrorFields pf ae obj fb) =
     (case obj ''code'' of None \<Rightarrow> ae_Code ae | Some c \<Rightarrow> formatCode pf c)"
  by (simp add: extractErrorFields_def assertString_def Let_def
      split: prod.splits option.splits jvalue.splits)

lemma float64ToInt_of_int:
  "- (2 ^ 63) \<le> n \<Longrightarrow> n < 2 ^ 63 \<Longrightarrow> float64ToInt oor (of_int n) = n"
  by (simp add: float64ToInt_def Let_def)

lemma TrimSpace_tests:
  \<open>TrimSpace ''{"code":"E100","message":"boom"}'' = ''{"code":"E100","message":"boom"}''\<close>
  \<open>TrimSpace ''{"code":429,"error":"slow down"}'' = ''{"code":429,"error":"slow down"}''\<close>
  \<open>TrimSpace ''E100'' = ''E100''\<close>
  by (rule TrimSpace_keep; simp add: spaceRunes_def)+

lemma TrimSpace_plain: "TrimSpace '' too many requests  '' = ''too many requests''"
  by code_simp

lemma Itoa_429: "Itoa 429 = ''429''"
  by code_simp

text \<open>
  C2, with the decoder given the body as received. \<open>buildAPIError\<close> returns one
  APIError, which keeps the status and the raw body. When the trimmed body does not
  start with \<open>{\<close> and end with \<open>}\<close>, or the body as received (not its trimmed text) does
  not decode to a map, the message is the trimmed body and the code is empty. When it
  decodes to a map: the message is the \<open>message\<close> member if that is a non-empty string,
  else the \<open>error\<close> member if that is a non-empty string, else the trimmed body; the
  code is empty without a \<open>code\<close> member, the trimmed string for a string, the decimal
  digits of the number with its fraction dropped for a number, and empty for a member
  of any other type.
\<close>

theorem error_normalization:
  "\<exists>ae. buildAPIError pf status body = ErrAPI ae
     \<and> ae_StatusCode ae = status \<and> ae_RawBody ae = body
     \<and> (\<not> (TrimSpace body \<noteq> [] \<and> hd (TrimSpace body) = CHR ''{''
              \<and> last (TrimSpace body) = CHR ''}'')
          \<or> (\<exists>e. unmarshalMap pf body = Inl e) \<or> unmarshalMap pf body = Inr None \<longrightarrow>
          ae_Message ae = TrimSpace body \<and> ae_Code ae = [])
     \<and> (\<forall>obj. TrimSpace body \<noteq> [] \<and> hd (TrimSpace body) = CHR ''{''
              \<and> last (TrimSpace body) = CHR ''}''
              \<and> unmarshalMap pf body = Inr (Some obj) \<longrightarrow>
          (\<forall>m. obj ''message'' = Some (JString m) \<and> m \<noteq> [] \<longrightarrow> ae_Message ae = m)
        \<and> (\<forall>m. \<not> (\<exists>m'. obj ''message'' = Some (JString m') \<and> m' \<noteq> [])
                \<and> obj ''error'' = Some (JString m) \<and> m \<noteq> [] \<longrightarrow> ae_Message ae = m)
        \<and> (\<not> (\<exists>m'. obj ''message'' = Some (JString m') \<and> m' \<noteq> [])
              \<and> \<not> (\<exists>m'. obj ''error'' = Some (JString m') \<and> m' \<noteq> []) \<longrightarrow>
              ae_Message ae = TrimSpace body)
        \<and> (obj ''code'' = None \<longrightarrow> ae_Code ae = [])
        \<and> (\<forall>s. obj ''code'' = Some (JString s) \<longrightarrow> ae_Code ae = TrimSpace s)
        \<and> (\<forall>x. obj ''code'' = Some (JNumber x) \<longrightarrow>
              ae_Code ae = Itoa (float64ToInt (intOutOfRange pf) x))
        \<and> (\<forall>n. obj ''code'' = Some (JNumber (of_int n)) \<and> - (2 ^ 63) \<le> n \<and> n < 2 ^ 63 \<longrightarrow>
              ae_Code ae = Itoa n)
        \<and> (\<forall>v. obj ''code'' = Some v \<and> \<not> (\<exists>s. v = JString s) \<and> \<not> (\<exists>x. v = JNumber x) \<longrightarrow>
              ae_Code ae = []))"
proof (cases "isJSONObject (TrimSpace body) \<and> (\<exists>obj. unmarshalMap pf body = Inr (Some obj))")
  case False
  then have "\<not> isJSONObject (TrimSpace body) \<or> tryParseJSON pf body = None"
    by (auto simp: tryParseJSON_cases split: sum.splits option.splits)
  from buildAPIError_plain[OF this, of status] False show ?thesis
    by (auto simp: isJSONObject_iff)
next
  case True
  then obtain obj where j: "isJSONObject (TrimSpace body)"
    and u: "unmarshalMap pf body = Inr (Some obj)" by blast
  from u have p: "tryParseJSON pf body = Some obj"
    by (simp add: tryParseJSON_cases)
  let ?ae0 = "\<lparr>ae_StatusCode = status, ae_Code = [], ae_Message = TrimSpace body, ae_RawBody = body\<rparr>"
  let ?ae = "extractErrorFields pf ?ae0 obj (TrimSpace body)"
  have b: "buildAPIError pf status body = ErrAPI ?ae"
    by (rule buildAPIError_json[OF j p])
  have m: "ae_Message ?ae =
     (case obj ''message'' of
        Some (JString m) \<Rightarrow>
          if m \<noteq> [] then m
          else (case obj ''error'' of
                  Some (JString m') \<Rightarrow> if m' \<noteq> [] then m' else TrimSpace body
                | _ \<Rightarrow> TrimSpace body)
      | _ \<Rightarrow>
          (case obj ''error'' of
             Some (JString m') \<Rightarrow> if m' \<noteq> [] then m' else TrimSpace body
           | _ \<Rightarrow> TrimSpace body))"
    by (rule extract_message)
  have c: "ae_Code ?ae = (case obj ''code'' of None \<Rightarrow> [] | Some c \<Rightarrow> formatCode pf c)"
    by (simp add: extract_code split: option.splits)
  have "ae_StatusCode ?ae = status" "ae_RawBody ?ae = body"
    by (simp_all add: extract_keeps)
  moreover have "\<forall>m. obj ''message'' = Some (JString m) \<and> m \<noteq> [] \<longrightarrow> ae_Message ?ae = m"
    unfolding m by simp
  moreover have "\<forall>m. \<not> (\<exists>m'. obj ''message'' = Some (JString m') \<and> m' \<noteq> [])
                \<and> obj ''error'' = Some (JString m) \<and> m \<noteq> [] \<longrightarrow> ae_Message ?ae = m"
    unfolding m by (auto split: option.splits jvalue.splits)
  moreover have "\<not> (\<exists>m'. obj ''message'' = Some (JString m') \<and> m' \<noteq> [])
              \<and> \<not> (\<exists>m'. obj ''error'' = Some (JString m') \<and> m' \<noteq> []) \<longrightarrow>
              ae_Message ?ae = TrimSpace body"
    unfolding m by (auto split: option.splits jvalue.splits)
  moreover have "obj ''code'' = None \<longrightarrow> ae_Code ?ae = []"
    unfolding c by simp
  moreover have "\<forall>s. obj ''code'' = Some (JString s) \<longrightarrow> ae_Code ?ae = TrimSpace s"
    unfolding c by (simp add: formatCode_def)
  moreover have "\<forall>x. obj ''code'' = Some (JNumber x) \<longrightarrow>
              ae_Code ?ae = Itoa (float64ToInt (intOutOfRange pf) x)"
    unfolding c by (simp add: formatCode_def)
  moreover have "\<forall>n. obj ''code'' = Some (JNumber (of_int n)) \<and> - (2 ^ 63) \<le> n \<and> n < 2 ^ 63 \<longrightarrow>
              ae_Code ?ae = Itoa n"
    unfolding c by (simp add: formatCode_def float64ToInt_of_int)
  moreover have "\<forall>v. obj ''code'' = Some v \<and> \<not> (\<exists>s. v = JString s) \<and> \<not> (\<exists>x. v = JNumber x) \<longrightarrow>
              ae_Code ?ae = []"
    unfolding c by (auto simp: formatCode_def split: jvalue.splits)
  ultimately show ?thesis
    using b u j unfolding isJSONObject_iff
    by (intro exI[of _ ?ae]) (simp only: sum.inject option.inject, blast)
qed

theorem error_normalization_witness:
  \<open>buildAPIError testPlatform 400 ''{"code":"E100","message":"boom"}'' =
     ErrAPI \<lparr>ae_StatusCode = 400, ae_Code = ''E100'', ae_Message = ''boom'',
             ae_RawBody = ''{"code":"E100","message":"boom"}''\<rparr>
   \<and> buildAPIError testPlatform 429 ''{"code":429,"error":"slow down"}'' =
     ErrAPI \<lparr>ae_StatusCode = 429, ae_Code = ''429'', ae_Message = ''slow down'',
             ae_RawBody = ''{"code":429,"error":"slow down"}''\<rparr>
   \<and> buildAPIError testPlatform 429 '' too many requests  '' =
     ErrAPI \<lparr>ae_StatusCode = 429, ae_Code = [], ae_Message = ''too many requests'',
             ae_RawBody = '' too many requests  ''\<rparr>\<close>
proof (intro conjI)
  show \<open>buildAPIError testPlatform 400 ''{"code":"E100","message":"boom"}'' =
     ErrAPI \<lparr>ae_StatusCode = 400, ae_Code = ''E100'', ae_Message = ''boom'',
             ae_RawBody = ''{"code":"E100","message":"boom"}''\<rparr>\<close>
    using error_normalization [of testPlatform 400 \<open>''{"code":"E100","message":"boom"}''\<close>]
    by (auto simp: TrimSpace_tests testPlatform_def)
  show \<open>buildAPIError testPlatform 429 ''{"code":429,"error":"slow down"}'' =
     ErrAPI \<lparr>ae_StatusCode = 429, ae_Code = ''429'', ae_Message = ''slow down'',
             ae_RawBody = ''{"code":429,"error":"slow down"}''\<rparr>\<close>
    using error_normalization [of testPlatform 429 \<open>''{"code":429,"error":"slow down"}''\<close>]
    by (auto simp: TrimSpace_tests testPlatform_def Itoa_429 dest: spec[of _ 429])
  show \<open>buildAPIError testPlatform 429 '' too many requests  '' =
     ErrAPI \<lparr>ae_StatusCode = 429, ae_Code = [], ae_Message = ''too many requests'',
             ae_RawBody = '' too many requests  ''\<rparr>\<close>
    using error_normalization [of testPlatform 429 "'' too many requests  ''"]
    by (auto simp: TrimSpace_plain testPlatform_def)
qed

text \<open>
  C2 as stated fails for a body whose surrounding white space is not JSON white space.
  The body is a vertical tab followed by an object with a \<open>message\<close> member: the
  trimmed text is the object and decodes to a map with that member, but the code
  hands the decoder the body as received, which is not JSON, so the message is the
  trimmed text and not the member.
\<close>

theorem error_normalization_counterexample:
  \<open>TrimSpace (CHR 0x0B # ''{"message":"x"}'') = ''{"message":"x"}''
   \<and> unmarshalMap testPlatform ''{"message":"x"}'' = Inr (Some [''message'' \<mapsto> JString ''x''])
   \<and> unmarshalMap testPlatform (CHR 0x0B # ''{"message":"x"}'')
       = Inl (Foreign ''invalid character'')
   \<and> buildAPIError testPlatform 500 (CHR 0x0B # ''{"message":"x"}'') =
       ErrAPI \<lparr>ae_StatusCode = 500, ae_Code = [], ae_Message = ''{"message":"x"}'',
               ae_RawBody = CHR 0x0B # ''{"message":"x"}''\<rparr>\<close>
proof -
  have t: \<open>TrimSpace (CHR 0x0B # ''{"message":"x"}'') = ''{"message":"x"}''\<close>
    by code_simp
  have u: \<open>unmarshalMap testPlatform (CHR 0x0B # ''{"message":"x"}'')
       = Inl (Foreign ''invalid character'')\<close>
    by (simp add: testPlatform_def)
  have m: \<open>unmarshalMap testPlatform ''{"message":"x"}'' = Inr (Some [''message'' \<mapsto> JString ''x''])\<close>
    by (simp add: testPlatform_def)
  have \<open>tryParseJSON testPlatform (CHR 0x0B # ''{"message":"x"}'') = None\<close>
    by (simp add: tryParseJSON_cases u)
  then have \<open>buildAPIError testPlatform 500 (CHR 0x0B # ''{"message":"x"}'') =
       ErrAPI \<lparr>ae_StatusCode = 500, ae_Code = [],
               ae_Message = TrimSpace (CHR 0x0B # ''{"message":"x"}''),
               ae_RawBody = CHR 0x0B # ''{"message":"x"}''\<rparr>\<close>
    by (intro buildAPIError_plain) simp
  with t u m show ?thesis by (simp only:)
qed

section \<open>Decoding a success response\<close>

lemma not_json_when_absent: "\<not> Contains (ToLower u []) ''application/json''"
  by (simp add: Contains_def ToLower_def)

lemma TrimSpace_ok: "TrimSpace '' ok  '' = ''ok''"
  by code_simp

lemma plain_not_json: "\<not> Contains ''text/plain'' ''application/json''"
  by code_simp

text \<open>
  C3. A dispatch that passed the limiter, sent its request and read the body of a
  response with a status from 200 to 299 returns a response value that keeps the status
  and the raw body. For an empty body there is no message and no result. For a
  non-empty body, the JSON decoder is consulted only if the lower-cased
  \<open>Content-Type\<close> contains \<open>application/json\<close> (an absent header does not); if it
  succeeds the decoded fields are returned; if it fails, or the header does not declare
  JSON, the message is the trimmed body.
\<close>

theorem success_decoding:
  assumes limiter: "(case cl_limiter c of None \<Rightarrow> None
                     | Some l \<Rightarrow> l (case ctx of None \<Rightarrow> Background | Some x \<Rightarrow> x)) = None"
    and url: "urlError pf (cl_baseURL c @ endpoint) = None"
    and http: "cl_http c (newRequest c (case ctx of None \<Rightarrow> Background | Some x \<Rightarrow> x)
                  endpoint payload) = Inr resp"
    and body: "readAllLimited resp = Inr raw"
    and status: "200 \<le> resp_StatusCode resp" "resp_StatusCode resp < 300"
  shows
    "(raw = [] \<longrightarrow>
        snd (doJSON pf c ctx endpoint payload) =
          Inr \<lparr>ar_Code = 0, ar_Message = [], ar_Result = [],
               ar_StatusCode = resp_StatusCode resp, ar_RawBody = raw\<rparr>)
     \<and> (\<forall>code m r.
           raw \<noteq> []
           \<and> Contains (ToLower (unicodeLower pf) (resp_ContentType resp)) ''application/json''
           \<and> unmarshalEnvelope pf raw (0, [], []) = ((code, m, r), None) \<longrightarrow>
           snd (doJSON pf c ctx endpoint payload) =
             Inr \<lparr>ar_Code = code, ar_Message = m, ar_Result = r,
                  ar_StatusCode = resp_StatusCode resp, ar_RawBody = raw\<rparr>)
     \<and> (\<forall>code m r e.
           raw \<noteq> []
           \<and> Contains (ToLower (unicodeLower pf) (resp_ContentType resp)) ''application/json''
           \<and> unmarshalEnvelope pf raw (0, [], []) = ((code, m, r), Some e) \<longrightarrow>
           snd (doJSON pf c ctx endpoint payload) =
             Inr \<lparr>ar_Code = code, ar_Message = TrimSpace raw, ar_Result = r,
                  ar_StatusCode = resp_StatusCode resp, ar_RawBody = raw\<rparr>)
     \<and> (raw \<noteq> []
          \<and> \<not> Contains (ToLower (unicodeLower pf) (resp_ContentType resp)) ''application/json''
          \<longrightarrow>
           snd (doJSON pf c ctx endpoint payload) =
             Inr \<lparr>ar_Code = 0, ar_Message = TrimSpace raw, ar_Result = [],
                  ar_StatusCode = resp_StatusCode resp, ar_RawBody = raw\<rparr>)
     \<and> (resp_ContentType resp = [] \<longrightarrow>
           \<not> Contains (ToLower (unicodeLower pf) (resp_ContentType resp)) ''application/json'')
     \<and> (\<exists>out. snd (doJSON pf c ctx endpoint payload) = Inr out
           \<and> ar_StatusCode out = resp_StatusCode resp \<and> ar_RawBody out = raw)"
proof -
  let ?out = "\<lparr>ar_Code = 0, ar_Message = [], ar_Result = [],
               ar_StatusCode = resp_StatusCode resp, ar_RawBody = raw\<rparr>"
  let ?json = "Contains (ToLower (unicodeLower pf) (resp_ContentType resp)) ''application/json''"
  have d: "snd (doJSON pf c ctx endpoint payload) =
     (if raw = [] then Inr ?out
      else if ?json
           then (case unmarshalAPIResponse pf raw ?out of
                   (out', None) \<Rightarrow> Inr out'
                 | (out', Some err) \<Rightarrow> Inr (out'\<lparr>ar_Message := TrimSpace raw\<rparr>))
           else Inr (?out\<lparr>ar_Message := TrimSpace raw\<rparr>))"
    using assms
    by (simp add: doJSON_def Let_def split: option.splits prod.splits)
  have u: "unmarshalAPIResponse pf raw ?out =
     (case unmarshalEnvelope pf raw (0, [], []) of
        ((code, m, r), err) \<Rightarrow>
          (\<lparr>ar_Code = code, ar_Message = m, ar_Result = r,
            ar_StatusCode = resp_StatusCode resp, ar_RawBody = raw\<rparr>, err))"
    by (simp add: unmarshalAPIResponse_def split: prod.splits)
  have 1: "raw = [] \<longrightarrow> snd (doJSON pf c ctx endpoint payload) = Inr ?out"
    by (simp add: d)
  have 2: "\<forall>code m r. raw \<noteq> [] \<and> ?json
           \<and> unmarshalEnvelope pf raw (0, [], []) = ((code, m, r), None) \<longrightarrow>
           snd (doJSON pf c ctx endpoint payload) =
             Inr \<lparr>ar_Code = code, ar_Message = m, ar_Result = r,
                  ar_StatusCode = resp_StatusCode resp, ar_RawBody = raw\<rparr>"
    by (simp add: d u)
  have 3: "\<forall>code m r e. raw \<noteq> [] \<and> ?json
           \<and> unmarshalEnvelope pf raw (0, [], []) = ((code, m, r), Some e) \<longrightarrow>
           snd (doJSON pf c ctx endpoint payload) =
             Inr \<lparr>ar_Code = code, ar_Message = TrimSpace raw, ar_Result = r,
                  ar_StatusCode = resp_StatusCode resp, ar_RawBody = raw\<rparr>"
    by (simp add: d u)
  have 4: "raw \<noteq> [] \<and> \<not> ?json \<longrightarrow>
           snd (doJSON pf c ctx endpoint payload) =
             Inr \<lparr>ar_Code = 0, ar_Message = TrimSpace raw, ar_Result = [],
                  ar_StatusCode = resp_StatusCode resp, ar_RawBody = raw\<rparr>"
    by (simp add: d)
  have 5: "resp_ContentType resp = [] \<longrightarrow> \<not> ?json"
    by (simp add: not_json_when_absent)
  have 6: "\<exists>out. snd (doJSON pf c ctx endpoint payload) = Inr out
           \<and> ar_StatusCode out = resp_StatusCode resp \<and> ar_RawBody out = raw"
    unfolding d u by (simp split: prod.splits option.splits)
  from 1 2 3 4 5 6 show ?thesis by (intro conjI)
qed

theorem success_decoding_witness:
  \<open>snd (doJSON testPlatform testClient None textEndpoint (TextPayload emptyText)) =
     Inr \<lparr>ar_Code = 0, ar_Message = ''ok'', ar_Result = [], ar_StatusCode = 200,
          ar_RawBody = ''{"code":0,"message":"ok"}''\<rparr>
   \<and> snd (doJSON testPlatform
          (testClient\<lparr>cl_http := \<lambda>req. Inr \<lparr>resp_StatusCode = 200, resp_ContentType = ''text/plain'',
                                             resp_Body = '' ok  '', resp_BodyErr = None\<rparr>\<rparr>)
          None textEndpoint (TextPayload emptyText)) =
     Inr \<lparr>ar_Code = 0, ar_Message = ''ok'', ar_Result = [], ar_StatusCode = 200,
          ar_RawBody = '' ok  ''\<rparr>
   \<and> snd (doJSON testPlatform
          (testClient\<lparr>cl_http := \<lambda>req. Inr \<lparr>resp_StatusCode = 204, resp_ContentType = [],
                                             resp_Body = [], resp_BodyErr = None\<rparr>\<rparr>)
          None textEndpoint (TextPayload emptyText)) =
     Inr \<lparr>ar_Code = 0, ar_Message = [], ar_Result = [], ar_StatusCode = 204,
          ar_RawBody = []\<rparr>\<close>
proof (intro conjI)
  let ?json = \<open>\<lparr>resp_StatusCode = 200, resp_ContentType = ''application/json'',
                 resp_Body = ''{"code":0,"message":"ok"}'', resp_BodyErr = None\<rparr>\<close>
  have \<open>Contains (ToLower (unicodeLower testPlatform) (resp_ContentType ?json)) ''application/json''
      \<and> unmarshalEnvelope testPlatform ''{"code":0,"message":"ok"}'' (0, [], []) = ((0, ''ok'', []), None)\<close>
    by (simp add: Contains_def ToLower_def asciiLower_def testPlatform_def)
  with success_decoding [where pf = testPlatform and c = testClient and ctx = None
      and endpoint = textEndpoint and payload = "TextPayload emptyText" and resp = ?json
      and raw = \<open>''{"code":0,"message":"ok"}''\<close>]
  show \<open>snd (doJSON testPlatform testClient None textEndpoint (TextPayload emptyText)) =
     Inr \<lparr>ar_Code = 0, ar_Message = ''ok'', ar_Result = [], ar_StatusCode = 200,
          ar_RawBody = ''{"code":0,"message":"ok"}''\<rparr>\<close>
    by (simp add: testClient_def testPlatform_def readAllLimited_def maxResponseBodySize_def)
next
  let ?plain = "\<lparr>resp_StatusCode = 200, resp_ContentType = ''text/plain'',
                  resp_Body = '' ok  '', resp_BodyErr = None\<rparr>"
  let ?c = "testClient\<lparr>cl_http := \<lambda>req. Inr ?plain\<rparr>"
  have "\<not> Contains (ToLower (unicodeLower testPlatform) (resp_ContentType ?plain)) ''application/json''"
    using plain_not_json by (simp add: ToLower_def asciiLower_def testPlatform_def)
  with success_decoding [where pf = testPlatform and c = ?c and ctx = None
      and endpoint = textEndpoint and payload = "TextPayload emptyText" and resp = ?plain
      and raw = "'' ok  ''"]
  show "snd (doJSON testPlatform ?c None textEndpoint (TextPayload emptyText)) =
     Inr \<lparr>ar_Code = 0, ar_Message = ''ok'', ar_Result = [], ar_StatusCode = 200,
          ar_RawBody = '' ok  ''\<rparr>"
    by (simp add: testClient_def testPlatform_def readAllLimited_def maxResponseBodySize_def
        TrimSpace_ok)
next
  let ?empty = "\<lparr>resp_StatusCode = 204, resp_ContentType = [],
                  resp_Body = [], resp_BodyErr = None\<rparr>"
  let ?c = "testClient\<lparr>cl_http := \<lambda>req. Inr ?empty\<rparr>"
  from success_decoding [where pf = testPlatform and c = ?c and ctx = None
      and endpoint = textEndpoint and payload = "TextPayload emptyText" and resp = ?empty
      and raw = "[]"]
  show "snd (doJSON testPlatform ?c None textEndpoint (TextPayload emptyText)) =
     Inr \<lparr>ar_Code = 0, ar_Message = [], ar_Result = [], ar_StatusCode = 204,
          ar_RawBody = []\<rparr>"
    by (simp add: testClient_def testPlatform_def readAllLimited_def maxResponseBodySize_def)
qed

end
